theory Spec2Isabelle
  imports Main
begin

section \<open>Data model\<close>

text \<open>
  A cell of a pandas DataFrame. \<open>NaN\<close> stands for every missing value (NaN, NaT, None).
  \<open>Stamp t\<close> is a timestamp, counted in whole seconds.
\<close>

datatype cell = NaN | Num int | Txt string | Stamp int

text \<open>
  A DataFrame: its column labels and its rows, each row an index label with one cell
  per column.
\<close>

record frame =
  df_columns :: "string list"
  df_rows :: "(int \<times> cell list) list"

text \<open>A connector object: the attributes \<open>type\<close>, \<open>label\<close> and \<open>flavor\<close> the code reads.\<close>

record conn =
  conn_type :: string
  conn_label :: string
  conn_flavor :: string

text \<open>
  The parameters dictionary of a pipe, as far as the code reads it: the entry
  \<open>columns\<close> (a dictionary from column role to column name) and the entry
  \<open>fetch\<close> (a dictionary holding \<open>backtrack_minutes\<close>). Each entry may be absent.
\<close>

record params =
  p_columns :: "(string \<times> string) list option"
  p_fetch :: "(string \<times> int) list option"

text \<open>
  A \<open>Pipe\<close> object: the attributes set by \<open>__init__\<close> and the entries the
  properties cache in \<open>__dict__\<close>. For a cached entry, \<open>None\<close> means that the key is
  not in \<open>__dict__\<close>; \<open>_id\<close> and \<open>_sync_time\<close> can be present and hold Python's
  \<open>None\<close>, hence the nested option.
\<close>

record pipe =
  connector_keys :: string
  metric_key :: string
  location_key :: "string option"
  parameters :: "params option"
  instance_keys :: string
  cached_instance_connector :: "conn option"
  cached_connector :: "conn option"
  cached_id :: "nat option option"
  cached_sync_time :: "int option option"

section \<open>The canonical storage name (\<open>Pipe.__str__\<close>)\<close>

text \<open>\<open>s.replace(old, new)\<close> of Python for one-character \<open>old\<close> and \<open>new\<close>.\<close>

fun replace :: "char \<Rightarrow> char \<Rightarrow> string \<Rightarrow> string" where
  "replace old new [] = []"
| "replace old new (c # cs) = (if c = old then new else c) # replace old new cs"

definition str_of :: "pipe \<Rightarrow> string" where
  "str_of p =
     (let name = replace (CHR '':'') (CHR ''_'') (connector_keys p) @ ''_'' @ metric_key p
      in case location_key p of
           None \<Rightarrow> name
         | Some l \<Rightarrow> name @ ''_'' @ l)"

section \<open>Frames: the merge step of \<open>sync\<close>\<close>

text \<open>Exceptions of the Python code, as values.\<close>

datatype error =
    AttributeError
  | KeyError
  | TypeError
  | ValueError
  | UnboundLocalError
  | MissingColumn
  | RoundTimeOfNaT

text \<open>\<open>df.head(0)\<close>: the columns and no row.\<close>

definition head0 :: "frame \<Rightarrow> frame" where
  "head0 df = df\<lparr>df_rows := []\<rparr>"

text \<open>The cell of a frame at an index label and a column label; missing when either is absent.\<close>

definition lookup_cell :: "frame \<Rightarrow> int \<Rightarrow> string \<Rightarrow> cell" where
  "lookup_cell v i c =
     (case map_of (df_rows v) i of
        None \<Rightarrow> NaN
      | Some cs \<Rightarrow> (case map_of (zip (df_columns v) cs) c of None \<Rightarrow> NaN | Some x \<Rightarrow> x))"

text \<open>Elementwise equality of pandas: a missing value equals nothing, itself included.\<close>

definition cell_eq :: "cell \<Rightarrow> cell \<Rightarrow> bool" where
  "cell_eq a b = (a \<noteq> NaN \<and> b \<noteq> NaN \<and> a = b)"

text \<open>
  \<open>df.isin(values)\<close> for a DataFrame \<open>values\<close>: pandas raises \<open>ValueError\<close> unless the
  labels of both axes of \<open>values\<close> are unique, reindexes \<open>values\<close> like \<open>df\<close> and compares
  cell by cell: the cell of \<open>df\<close> at (index label, column label) against the cell of
  \<open>values\<close> at the same two labels.
\<close>

definition isin :: "frame \<Rightarrow> frame \<Rightarrow> error + bool list list" where
  "isin df v =
     (if distinct (df_columns v) \<and> distinct (map fst (df_rows v))
      then Inr (map (\<lambda>(i, cs). map (\<lambda>(c, x). cell_eq x (lookup_cell v i c))
                                     (zip (df_columns df) cs))
                    (df_rows df))
      else Inl ValueError)"

text \<open>
  \<open>df[~flags]\<close> for a boolean frame \<open>flags\<close>: the cells where \<open>flags\<close> holds become
  missing. The cells that stay are kept as they are: the change of dtype that pandas
  makes in a column with a masked cell (integers become floats, exact up to \<open>2^53\<close>) is
  not modelled.
\<close>

definition where_not :: "frame \<Rightarrow> bool list list \<Rightarrow> frame" where
  "where_not df flags =
     df\<lparr>df_rows := map (\<lambda>((i, cs), ms). (i, map (\<lambda>(x, m). if m then NaN else x) (zip cs ms)))
                        (zip (df_rows df) flags)\<rparr>"

text \<open>\<open>dropna(how='all')\<close>: the rows that have a cell which is not missing.\<close>

definition dropna_all :: "frame \<Rightarrow> frame" where
  "dropna_all df = df\<lparr>df_rows := filter (\<lambda>(i, cs). list_ex (\<lambda>x. x \<noteq> NaN) cs) (df_rows df)\<rparr>"

text \<open>Line 88 of \<open>sync\<close>: \<open>new_data_df = df[~df.isin(backtrack_df)].dropna(how='all')\<close>.\<close>

definition new_data_df :: "frame \<Rightarrow> frame \<Rightarrow> error + frame" where
  "new_data_df df backtrack_df =
     (case isin df backtrack_df of
        Inl e \<Rightarrow> Inl e
      | Inr flags \<Rightarrow> Inr (dropna_all (where_not df flags)))"

text \<open>
  The merge step in the words of the specification, for comparison: the fetched rows
  whose tuple of values is the tuple of no retrieved row.
\<close>

definition spec_new_rows :: "frame \<Rightarrow> frame \<Rightarrow> (int \<times> cell list) list" where
  "spec_new_rows df backtrack_df =
     filter (\<lambda>(i, cs). \<not> List.member (map snd (df_rows backtrack_df)) cs) (df_rows df)"

text \<open>The cells of one column, \<open>df[c]\<close>; \<open>KeyError\<close> when the frame has no such column.\<close>

definition column_cells :: "frame \<Rightarrow> string \<Rightarrow> error + cell list" where
  "column_cells df c =
     (if List.member (df_columns df) c
      then Inr (map (\<lambda>(i, cs). case map_of (zip (df_columns df) cs) c of
                                   None \<Rightarrow> NaN | Some x \<Rightarrow> x) (df_rows df))
      else Inl KeyError)"

fun stamps :: "cell list \<Rightarrow> int list" where
  "stamps [] = []"
| "stamps (Stamp t # cs) = t # stamps cs"
| "stamps (c # cs) = stamps cs"

fun minimum :: "int list \<Rightarrow> int option" where
  "minimum [] = None"
| "minimum (t # ts) = (case minimum ts of None \<Rightarrow> Some t | Some m \<Rightarrow> Some (min t m))"

fun maximum :: "int list \<Rightarrow> int option" where
  "maximum [] = None"
| "maximum (t # ts) = (case maximum ts of None \<Rightarrow> Some t | Some m \<Rightarrow> Some (max t m))"

text \<open>
  \<open>series.min().to_pydatetime()\<close>, missing cells skipped. A column of timestamps gives
  the least of them. A column of numbers or of strings gives a value that has no
  \<open>to_pydatetime\<close> (\<open>AttributeError\<close>); a column that mixes the kinds cannot be
  compared (\<open>TypeError\<close>). A column with no value at all gives NaT, which line 75 hands
  to \<open>round_time\<close>: what \<open>round_time\<close> does with NaT is not in the sources, and the model
  stops there with \<open>RoundTimeOfNaT\<close>.
\<close>

definition min_datetime :: "cell list \<Rightarrow> error + int" where
  "min_datetime cells =
     (if list_all (\<lambda>x. case x of NaN \<Rightarrow> True | Stamp t \<Rightarrow> True | _ \<Rightarrow> False) cells
      then (case minimum (stamps cells) of None \<Rightarrow> Inl RoundTimeOfNaT | Some m \<Rightarrow> Inr m)
      else if list_all (\<lambda>x. case x of NaN \<Rightarrow> True | Num n \<Rightarrow> True | _ \<Rightarrow> False) cells
              \<or> list_all (\<lambda>x. case x of NaN \<Rightarrow> True | Txt t \<Rightarrow> True | _ \<Rightarrow> False) cells
      then Inl AttributeError
      else Inl TypeError)"

text \<open>
  Modelled from the spec: \<open>round_time\<close> (meerschaum/utils/misc is not among the sources),
  called with \<open>to = 'down'\<close> and its default granularity. The specification has it
  floor-round to one minute; timestamps count seconds.
\<close>

definition round_time_down :: "int \<Rightarrow> int" where
  "round_time_down t = t - t mod 60"

section \<open>The environment of a pipe\<close>

text \<open>What \<open>sync\<close> returns: a tuple \<open>(success, message)\<close>, or Python's \<open>None\<close>.\<close>

datatype retval = RTuple bool string | RNone

text \<open>
  The calls a pipe makes to its collaborators, in the order they happen. The first
  string of a call to a connector is the connector's keys, \<open>type:label\<close>; the pipe is
  named by its storage name.
\<close>

datatype event =
    Fetch string
  | SyncPipe string string "frame option"
  | GetPipeId string string
  | Register string
  | Warn string
  | Value string string
  | ToSql string string frame
  | CreateIndices string string
  | GetBacktrackData string string int "int option"
  | GetSyncTime string string

text \<open>
  The collaborators whose code is not among the sources, as parameters: the two
  registries of connectors, the connector \<open>get_connector('sql', 'main')\<close>, what
  \<open>Pipe.fetch\<close> yields, what an API instance's \<open>sync_pipe\<close> returns, and what an instance
  connector answers to \<open>get_pipe_id\<close>, to \<open>value(query)\<close> and to \<open>get_backtrack_data\<close>;
  and the helper \<open>pg_capital\<close>.
\<close>

record env =
  parse_connector_keys :: "string \<Rightarrow> conn option"
  parse_instance_keys :: "string \<Rightarrow> conn option"
  get_connector_sql_main :: conn
  fetch_result :: "string \<Rightarrow> frame option"
  sync_pipe_result :: "string \<Rightarrow> frame option \<Rightarrow> retval"
  get_pipe_id_result :: "string \<Rightarrow> string \<Rightarrow> nat option"
  value_result :: "string \<Rightarrow> string \<Rightarrow> cell option"
  backtrack_result :: "string \<Rightarrow> string \<Rightarrow> int \<Rightarrow> int option \<Rightarrow> frame"
  pg_capital :: "string \<Rightarrow> string"

text \<open>
  The state outside the pipe object: the storage objects, by connector keys and name,
  and the calls made so far.
\<close>

record world =
  tables :: "string \<times> string \<rightharpoonup> frame"
  calls :: "event list"

text \<open>
  The outcome of a method: an exception together with the world it leaves, or a value
  together with the pipe object and the world.
\<close>

type_synonym 'a outcome = "(error \<times> world) + ('a \<times> pipe \<times> world)"

definition and_then :: "'a outcome \<Rightarrow> ('a \<Rightarrow> pipe \<Rightarrow> world \<Rightarrow> 'b outcome) \<Rightarrow> 'b outcome" where
  "and_then r f = (case r of Inl e \<Rightarrow> Inl e | Inr (x, self, w) \<Rightarrow> f x self w)"

definition emit :: "event \<Rightarrow> world \<Rightarrow> world" where
  "emit e w = w\<lparr>calls := calls w @ [e]\<rparr>"

definition world_of :: "'a outcome \<Rightarrow> world" where
  "world_of r = (case r of Inl (e, w) \<Rightarrow> w | Inr (x, self, w) \<Rightarrow> w)"

definition keys_of :: "conn \<Rightarrow> string" where
  "keys_of c = conn_type c @ '':'' @ conn_label c"

definition quoted :: "string \<Rightarrow> string" where
  "quoted s = [CHR 0x27] @ s @ [CHR 0x27]"

section \<open>Attributes of a pipe (\<open>_Pipe.py\<close>)\<close>

text \<open>The property \<open>instance_connector\<close>: resolved once through the registry, cached when truthy.\<close>

definition instance_connector :: "env \<Rightarrow> pipe \<Rightarrow> conn option \<times> pipe" where
  "instance_connector E self =
     (case cached_instance_connector self of
        Some c \<Rightarrow> (Some c, self)
      | None \<Rightarrow>
          (case parse_instance_keys E (instance_keys self) of
             Some c \<Rightarrow> (Some c, self\<lparr>cached_instance_connector := Some c\<rparr>)
           | None \<Rightarrow> (None, self)))"

text \<open>The property \<open>connector\<close>.\<close>

definition connector :: "env \<Rightarrow> pipe \<Rightarrow> conn option \<times> pipe" where
  "connector E self =
     (case cached_connector self of
        Some c \<Rightarrow> (Some c, self)
      | None \<Rightarrow>
          (case parse_connector_keys E (connector_keys self) of
             Some c \<Rightarrow> (Some c, self\<lparr>cached_connector := Some c\<rparr>)
           | None \<Rightarrow> (None, self)))"

text \<open>Truthiness of an id: \<open>None\<close> and \<open>0\<close> are falsy.\<close>

definition truthy :: "nat option \<Rightarrow> bool" where
  "truthy v = (case v of None \<Rightarrow> False | Some n \<Rightarrow> n \<noteq> 0)"

text \<open>
  The property \<open>id\<close>: unless \<open>_id\<close> is in \<open>__dict__\<close> and truthy, it is assigned what
  \<open>get_pipe_id\<close> of the instance connector returns. A null instance connector has no
  attribute \<open>get_pipe_id\<close>.
\<close>

definition pipe_id :: "env \<Rightarrow> pipe \<Rightarrow> world \<Rightarrow> nat option outcome" where
  "pipe_id E self w =
     (if \<not> (case cached_id self of None \<Rightarrow> False | Some v \<Rightarrow> truthy v)
      then (case instance_connector E self of
              (None, self1) \<Rightarrow> Inl (AttributeError, w)
            | (Some ic, self1) \<Rightarrow>
                (let v = get_pipe_id_result E (keys_of ic) (str_of self1)
                 in Inr (v, self1\<lparr>cached_id := Some v\<rparr>,
                         emit (GetPipeId (keys_of ic) (str_of self1)) w)))
      else Inr (case cached_id self of None \<Rightarrow> None | Some v \<Rightarrow> v, self, w))"

text \<open>
  Modelled from the spec: the property \<open>columns\<close> (Pipe/_attributes.py is not among the
  sources). The specification has the parameters hold the column declarations under
  \<open>columns\<close>; the property is null when there are none.
\<close>

definition columns :: "pipe \<Rightarrow> (string \<times> string) list option" where
  "columns self = (case parameters self of None \<Rightarrow> None | Some ps \<Rightarrow> p_columns ps)"

text \<open>
  The lookup \<open>self.parameters['fetch']['backtrack_minutes']\<close> of \<open>get_backtrack_data\<close>;
  \<open>None\<close> when any step of it raises.
\<close>

definition fetch_backtrack_minutes :: "pipe \<Rightarrow> int option" where
  "fetch_backtrack_minutes self =
     (case parameters self of
        None \<Rightarrow> None
      | Some ps \<Rightarrow> (case p_fetch ps of None \<Rightarrow> None | Some f \<Rightarrow> map_of f ''backtrack_minutes''))"

text \<open>
  Modelled from the spec: \<open>get_columns\<close> (Pipe/_attributes.py is not among the
  sources). The specification requires the pipe to declare the column; \<open>sync\<close> neither
  tests nor returns what the call yields, so a failure of the call is an exception.
\<close>

definition get_columns :: "pipe \<Rightarrow> string \<Rightarrow> error + string" where
  "get_columns self role =
     (case columns self of
        None \<Rightarrow> Inl MissingColumn
      | Some cs \<Rightarrow> (case map_of cs role of None \<Rightarrow> Inl MissingColumn | Some c \<Rightarrow> Inr c))"

section \<open>The instance connector's storage\<close>

text \<open>
  Modelled from the spec: the instance connector's \<open>to_sql\<close> with
  \<open>if_exists = 'append'\<close> (the connector's code is not among the sources). The
  specification has it create the storage object from the frame when there is none and
  append the rows otherwise; the model lays each appended row out on the columns of the
  storage object, cell by column label.
\<close>

definition laid_out :: "string list \<Rightarrow> frame \<Rightarrow> (int \<times> cell list) list" where
  "laid_out cols df =
     map (\<lambda>(i, cs). (i, map (\<lambda>c. case map_of (zip (df_columns df) cs) c of
                                     None \<Rightarrow> NaN | Some x \<Rightarrow> x) cols))
         (df_rows df)"

definition to_sql :: "conn \<Rightarrow> frame \<Rightarrow> string \<Rightarrow> world \<Rightarrow> world" where
  "to_sql c df name w =
     (let w1 = emit (ToSql (keys_of c) name df) w
      in case tables w (keys_of c, name) of
           None \<Rightarrow> w1\<lparr>tables := (tables w)((keys_of c, name) \<mapsto> df)\<rparr>
         | Some t \<Rightarrow>
             w1\<lparr>tables := (tables w)((keys_of c, name) \<mapsto>
                              t\<lparr>df_rows := df_rows t @ laid_out (df_columns t) df\<rparr>)\<rparr>)"

text \<open>
  Modelled from the spec: the instance connector's \<open>get_sync_time\<close>, the most recent
  timestamp present in the pipe's storage object, null when there is none.
\<close>

definition stored_sync_time :: "world \<Rightarrow> string \<times> string \<Rightarrow> string \<Rightarrow> int option" where
  "stored_sync_time w k dt =
     (case tables w k of
        None \<Rightarrow> None
      | Some t \<Rightarrow> (case column_cells t dt of Inl e \<Rightarrow> None | Inr cells \<Rightarrow> maximum (stamps cells)))"

section \<open>Synchronisation (\<open>_sync.py\<close>)\<close>

text \<open>
  \<open>get_sync_time\<close>: a warning and null when the pipe has no columns or declares no
  datetime column, the instance connector's answer otherwise.
\<close>

definition get_sync_time :: "env \<Rightarrow> pipe \<Rightarrow> world \<Rightarrow> int option outcome" where
  "get_sync_time E self w =
     (case columns self of
        None \<Rightarrow>
          Inr (None, self,
               emit (Warn (''No columns found for pipe '' @ quoted (str_of self)
                           @ ''. Is pipe registered?'')) w)
      | Some cs \<Rightarrow>
          (case map_of cs ''datetime'' of
             None \<Rightarrow>
               Inr (None, self,
                    emit (Warn (quoted ''datetime''
                      @ '' must be declared in parameters:columns for Pipe ''
                      @ quoted (str_of self) @ ''.'' @ [CHR 0x0A, CHR 0x0A]
                      @ ''You can add parameters for this Pipe with the following command:''
                      @ [CHR 0x0A, CHR 0x0A]
                      @ ''mrsm edit pipes -C '' @ connector_keys self @ '' -M ''
                      @ metric_key self @ '' -L ''
                      @ (case location_key self of None \<Rightarrow> ''[None]'' | Some l \<Rightarrow> l))) w)
           | Some dt \<Rightarrow>
               (case instance_connector E self of
                  (None, self1) \<Rightarrow> Inl (AttributeError, w)
                | (Some ic, self1) \<Rightarrow>
                    Inr (stored_sync_time w (keys_of ic, str_of self1) dt, self1,
                         emit (GetSyncTime (keys_of ic) (str_of self1)) w))))"

text \<open>
  The property \<open>sync_time\<close> of \<open>_Pipe.py\<close>: \<open>_sync_time\<close> is assigned from
  \<open>get_sync_time\<close> when it is not in \<open>__dict__\<close>; an entry holding null is deleted and
  null returned.
\<close>

definition sync_time :: "env \<Rightarrow> pipe \<Rightarrow> world \<Rightarrow> int option outcome" where
  "sync_time E self w =
     and_then
       (case cached_sync_time self of
          None \<Rightarrow> and_then (get_sync_time E self w)
                    (\<lambda>v self1 w1. Inr (v, self1\<lparr>cached_sync_time := Some v\<rparr>, w1))
        | Some v \<Rightarrow> Inr (v, self, w))
       (\<lambda>v self1 w1.
          case v of
            None \<Rightarrow> Inr (None, self1\<lparr>cached_sync_time := None\<rparr>, w1)
          | Some t \<Rightarrow> Inr (Some t, self1, w1))"

text \<open>
  \<open>exists\<close>: the connector is the instance connector, then at once
  \<open>get_connector('sql', 'main')\<close>; the query is chosen by that connector's flavor and is
  unbound for any other flavor.
\<close>

definition exists_query :: "env \<Rightarrow> conn \<Rightarrow> pipe \<Rightarrow> error + string" where
  "exists_query E c self =
     (if conn_flavor c = ''timescaledb'' \<or> conn_flavor c = ''postgresql''
      then Inr (''SELECT to_regclass('' @ quoted (pg_capital E (str_of self)) @ '')'')
      else if conn_flavor c = ''mssql''
      then Inr (''SELECT OBJECT_ID('' @ quoted (str_of self) @ '')'')
      else if conn_flavor c = ''mysql'' \<or> conn_flavor c = ''mariadb''
      then Inr (''SHOW TABLES LIKE '' @ quoted (str_of self))
      else Inl UnboundLocalError)"

definition exists :: "env \<Rightarrow> pipe \<Rightarrow> world \<Rightarrow> bool outcome" where
  "exists E self w =
     (case instance_connector E self of
        (ic, self1) \<Rightarrow>
          (let c = get_connector_sql_main E
           in case exists_query E c self1 of
                Inl e \<Rightarrow> Inl (e, w)
              | Inr q \<Rightarrow>
                  Inr (value_result E (keys_of c) q \<noteq> None, self1,
                       emit (Value (keys_of c) q) w)))"

text \<open>
  \<open>get_backtrack_data\<close>: the lookup in the parameters replaces the argument
  \<open>backtrack_minutes\<close> unless it fails; a null \<open>begin\<close> is replaced by the property
  \<open>sync_time\<close>.
\<close>

definition get_backtrack_data ::
  "env \<Rightarrow> pipe \<Rightarrow> int \<Rightarrow> int option \<Rightarrow> world \<Rightarrow> frame outcome" where
  "get_backtrack_data E self backtrack_minutes begin w =
     (let minutes = (case fetch_backtrack_minutes self of
                       Some m \<Rightarrow> m
                     | None \<Rightarrow> backtrack_minutes)
      in and_then
           (case begin of
              None \<Rightarrow> sync_time E self w
            | Some b \<Rightarrow> Inr (Some b, self, w))
           (\<lambda>begin1 self1 w1.
              case instance_connector E self1 of
                (None, self2) \<Rightarrow> Inl (AttributeError, w1)
              | (Some ic, self2) \<Rightarrow>
                  Inr (backtrack_result E (keys_of ic) (str_of self2) minutes begin1, self2,
                       emit (GetBacktrackData (keys_of ic) (str_of self2) minutes begin1) w1)))"

text \<open>
  Lines 74 to 80: \<open>begin\<close> is the rounded-down minimum of the datetime column of the
  fetched frame, less one minute. \<open>self.columns['datetime']\<close> raises \<open>TypeError\<close> on null
  columns and \<open>KeyError\<close> on a missing key.
\<close>

definition begin_of :: "pipe \<Rightarrow> frame \<Rightarrow> error + int" where
  "begin_of self df =
     (case columns self of
        None \<Rightarrow> Inl TypeError
      | Some cs \<Rightarrow>
          (case map_of cs ''datetime'' of
             None \<Rightarrow> Inl KeyError
           | Some dt \<Rightarrow>
               (case column_cells df dt of
                  Inl e \<Rightarrow> Inl e
                | Inr cells \<Rightarrow>
                    (case min_datetime cells of
                       Inl e \<Rightarrow> Inl e
                     | Inr m \<Rightarrow> Inr (round_time_down m - 60)))))"

text \<open>
  Lines 61 to 98: the local algorithm on a fetched frame. \<open>sql_connector\<close> is the
  instance connector resolved on line 38.
\<close>

definition sync_frame :: "env \<Rightarrow> conn \<Rightarrow> pipe \<Rightarrow> frame \<Rightarrow> world \<Rightarrow> retval outcome" where
  "sync_frame E sql_connector self df w =
     and_then (exists E self w)
       (\<lambda>ex self1 w1.
          let w2 = (if \<not> ex
                    then emit (CreateIndices (keys_of sql_connector) (str_of self1))
                           (to_sql sql_connector (head0 df) (str_of self1) w1)
                    else w1)
          in case begin_of self1 df of
               Inl e \<Rightarrow> Inl (e, w2)
             | Inr begin \<Rightarrow>
                 and_then (get_backtrack_data E self1 0 (Some begin) w2)
                   (\<lambda>backtrack_df self2 w3.
                      case new_data_df df backtrack_df of
                        Inl e \<Rightarrow> Inl (e, w3)
                      | Inr new \<Rightarrow>
                          Inr (RTuple True ''Success'', self2,
                               to_sql sql_connector new (str_of self2) w3)))"

text \<open>
  Lines 41 to 98: the steps for an instance connector that is not an API connector.
  \<open>register\<close> (Pipe/_register.py is not among the sources) is recorded as a call.
\<close>

definition sync_local ::
  "env \<Rightarrow> conn \<Rightarrow> pipe \<Rightarrow> frame option \<Rightarrow> world \<Rightarrow> retval outcome" where
  "sync_local E ic self df w =
     (case get_columns self ''datetime'' of
        Inl e \<Rightarrow> Inl (e, w)
      | Inr datetime \<Rightarrow>
          and_then (pipe_id E self w)
            (\<lambda>i self1 w1.
               let w2 = (if \<not> truthy i then emit (Register (str_of self1)) w1 else w1)
               in case df of
                    None \<Rightarrow>
                      (case connector E self1 of
                         (None, self2) \<Rightarrow> Inl (AttributeError, w2)
                       | (Some c, self2) \<Rightarrow>
                           (if conn_type c = ''mqtt''
                            then Inr (RTuple True ''Success'', self2, w2)
                            else Inr (RNone, self2,
                                      emit (Warn (''Was not able to sync ''
                                                  @ quoted (str_of self2))) w2)))
                  | Some f \<Rightarrow> sync_frame E ic self1 f w2))"

text \<open>
  Lines 37 to 39, then the local steps: an instance connector of type \<open>api\<close> is handed
  the pipe and the frame, and its result is returned.
\<close>

definition sync_instance :: "env \<Rightarrow> pipe \<Rightarrow> frame option \<Rightarrow> world \<Rightarrow> retval outcome" where
  "sync_instance E self df w =
     (case instance_connector E self of
        (None, self1) \<Rightarrow> Inl (AttributeError, w)
      | (Some ic, self1) \<Rightarrow>
          (if conn_type ic = ''api''
           then Inr (sync_pipe_result E (str_of self1) df, self1,
                     emit (SyncPipe (keys_of ic) (str_of self1) df) w)
           else sync_local E ic self1 df w))"

text \<open>
  \<open>sync\<close>. Without a frame the pipe fetches one, and needs its connector for that
  (\<open>Pipe.fetch\<close>, of Pipe/_fetch.py, is not among the sources: a call, and what the
  environment says it yields).
\<close>

definition sync :: "env \<Rightarrow> pipe \<Rightarrow> frame option \<Rightarrow> world \<Rightarrow> retval outcome" where
  "sync E self df w =
     (case df of
        None \<Rightarrow>
          (case connector E self of
             (None, self1) \<Rightarrow> Inr (RTuple False ''Cannot fetch without a connector'', self1, w)
           | (Some c, self1) \<Rightarrow>
               sync_instance E self1 (fetch_result E (str_of self1))
                 (emit (Fetch (str_of self1)) w))
      | Some f \<Rightarrow> sync_instance E self (Some f) w)"

section \<open>Observations on a run\<close>

text \<open>The calls to the instance connector's \<open>get_backtrack_data\<close>: minutes and begin of each.\<close>

fun backtrack_calls :: "event list \<Rightarrow> (int \<times> int option) list" where
  "backtrack_calls [] = []"
| "backtrack_calls (GetBacktrackData k name minutes start # es) =
     (minutes, start) # backtrack_calls es"
| "backtrack_calls (e # es) = backtrack_calls es"

text \<open>
  A later pipe object is the same pipe: same storage name, same parameters, the same
  cached sync time, and its instance connector resolves as before.
\<close>

definition same_pipe :: "env \<Rightarrow> pipe \<Rightarrow> pipe \<Rightarrow> bool" where
  "same_pipe E self self1 =
     (str_of self1 = str_of self \<and> parameters self1 = parameters self
      \<and> cached_sync_time self1 = cached_sync_time self
      \<and> fst (instance_connector E self1) = fst (instance_connector E self))"

text \<open>No stored sync time has gone back between two worlds.\<close>

definition no_earlier :: "world \<Rightarrow> world \<Rightarrow> bool" where
  "no_earlier w w1 =
     (\<forall>k dt. case stored_sync_time w k dt of
               None \<Rightarrow> True
             | Some t \<Rightarrow> (case stored_sync_time w1 k dt of None \<Rightarrow> False | Some t1 \<Rightarrow> t \<le> t1))"

section \<open>Example pipes and environments\<close>

text \<open>
  A registry with a TimescaleDB connector \<open>sql:main\<close>, an MSSQL connector
  \<open>sql:other\<close>, an API connector and an MQTT connector; every other key is unknown.
\<close>

definition example_registry :: "string \<Rightarrow> conn option" where
  "example_registry k =
     (if k = ''sql:main''
      then Some \<lparr>conn_type = ''sql'', conn_label = ''main'', conn_flavor = ''timescaledb''\<rparr>
      else if k = ''sql:other''
      then Some \<lparr>conn_type = ''sql'', conn_label = ''other'', conn_flavor = ''mssql''\<rparr>
      else if k = ''api:main''
      then Some \<lparr>conn_type = ''api'', conn_label = ''main'', conn_flavor = []\<rparr>
      else if k = ''mqtt:main''
      then Some \<lparr>conn_type = ''mqtt'', conn_label = ''main'', conn_flavor = []\<rparr>
      else None)"

text \<open>
  An environment over that registry: the source yields \<open>fetched\<close>, the instance
  answers every \<open>get_backtrack_data\<close> with \<open>stored\<close>, knows no pipe id and finds no
  storage object.
\<close>

definition example_env :: "frame option \<Rightarrow> frame \<Rightarrow> env" where
  "example_env fetched stored =
     \<lparr>parse_connector_keys = example_registry,
      parse_instance_keys = example_registry,
      get_connector_sql_main =
        \<lparr>conn_type = ''sql'', conn_label = ''main'', conn_flavor = ''timescaledb''\<rparr>,
      fetch_result = (\<lambda>name. fetched),
      sync_pipe_result = (\<lambda>name df. RTuple True ''Success''),
      get_pipe_id_result = (\<lambda>k name. None),
      value_result = (\<lambda>k q. None),
      backtrack_result = (\<lambda>k name minutes begin. stored),
      pg_capital = (\<lambda>s. s)\<rparr>"

text \<open>A fresh pipe for the metric \<open>cpu\<close> that declares the datetime column \<open>ts\<close>.\<close>

definition example_pipe :: "string \<Rightarrow> string \<Rightarrow> pipe" where
  "example_pipe ck ik =
     \<lparr>connector_keys = ck, metric_key = ''cpu'', location_key = None,
      parameters = Some \<lparr>p_columns = Some [(''datetime'', ''ts'')], p_fetch = None\<rparr>,
      instance_keys = ik,
      cached_instance_connector = None, cached_connector = None, cached_id = None,
      cached_sync_time = None\<rparr>"

definition empty_world :: world where
  "empty_world = \<lparr>tables = Map.empty, calls = []\<rparr>"

text \<open>
  Rows fetched at 10:01 and 10:02, and rows stored at 10:00 and 10:01 (seconds of the
  day); the row of 10:01 is the same in both.
\<close>

definition fetched_rows :: frame where
  "fetched_rows = \<lparr>df_columns = [''ts'', ''v''],
      df_rows = [(0, [Stamp 36060, Num 2]), (1, [Stamp 36120, Num 3])]\<rparr>"

definition stored_rows :: frame where
  "stored_rows = \<lparr>df_columns = [''ts'', ''v''],
      df_rows = [(0, [Stamp 36000, Num 1]), (1, [Stamp 36060, Num 2])]\<rparr>"

text \<open>A world where the storage object of the pipe \<open>sql_main_cpu\<close> holds the stored rows.\<close>

definition stored_world :: world where
  "stored_world = \<lparr>tables = [(''sql:main'', ''sql_main_cpu'') \<mapsto> stored_rows], calls = []\<rparr>"



section \<open>Properties of the canonical storage name\<close>

lemma replace_map: "replace old new s = map (\<lambda>c. if c = old then new else c) s"
  by (induction s) simp_all

text \<open>
  C7. The storage name of a pipe is its connector keys with every colon turned into an
  underscore, then an underscore and the metric key, and then an underscore and the
  location key exactly when the location key is present.
\<close>

theorem str_of_canonical:
  "str_of p =
     map (\<lambda>c. if c = CHR '':'' then CHR ''_'' else c) (connector_keys p)
       @ ''_'' @ metric_key p
       @ (if location_key p = None then [] else ''_'' @ the (location_key p))"
  by (cases "location_key p") (simp_all add: str_of_def replace_map)

theorem str_of_canonical_witness:
  "str_of \<lparr>connector_keys = ''sql:main'', metric_key = ''cpu'',
       location_key = Some ''server1'', parameters = None, instance_keys = ''sql:main'',
       cached_instance_connector = None, cached_connector = None, cached_id = None,
       cached_sync_time = None\<rparr> = ''sql_main_cpu_server1''
   \<and> str_of \<lparr>connector_keys = ''api:prod'', metric_key = ''mem'',
       location_key = None, parameters = None, instance_keys = ''sql:main'',
       cached_instance_connector = None, cached_connector = None, cached_id = None,
       cached_sync_time = None\<rparr> = ''api_prod_mem''"
  using str_of_canonical [of "\<lparr>connector_keys = ''sql:main'', metric_key = ''cpu'',
       location_key = Some ''server1'', parameters = None, instance_keys = ''sql:main'',
       cached_instance_connector = None, cached_connector = None, cached_id = None,
       cached_sync_time = None\<rparr>"]
    str_of_canonical [of "\<lparr>connector_keys = ''api:prod'', metric_key = ''mem'',
       location_key = None, parameters = None, instance_keys = ''sql:main'',
       cached_instance_connector = None, cached_connector = None, cached_id = None,
       cached_sync_time = None\<rparr>"]
  by simp

section \<open>Properties of the cached attributes\<close>

lemma instance_connector_keeps:
  "str_of (snd (instance_connector E self)) = str_of self"
  "parameters (snd (instance_connector E self)) = parameters self"
  "cached_connector (snd (instance_connector E self)) = cached_connector self"
  "connector_keys (snd (instance_connector E self)) = connector_keys self"
  "cached_id (snd (instance_connector E self)) = cached_id self"
  "cached_sync_time (snd (instance_connector E self)) = cached_sync_time self"
  by (simp_all add: instance_connector_def str_of_def split: option.splits)

lemma connector_keeps:
  "str_of (snd (connector E self)) = str_of self"
  "parameters (snd (connector E self)) = parameters self"
  "cached_instance_connector (snd (connector E self)) = cached_instance_connector self"
  "instance_keys (snd (connector E self)) = instance_keys self"
  by (simp_all add: connector_def str_of_def split: option.splits)

lemma instance_connector_after_connector:
  "fst (instance_connector E (snd (connector E self))) = fst (instance_connector E self)"
  by (simp add: instance_connector_def connector_keeps split: option.splits)

lemma get_columns_after:
  "get_columns (snd (instance_connector E self)) role = get_columns self role"
  "get_columns (snd (connector E self)) role = get_columns self role"
  by (simp_all add: get_columns_def columns_def instance_connector_keeps connector_keeps)

lemma instance_connector_caches:
  assumes "instance_connector E self = (Some ic, self1)"
  shows "cached_instance_connector self1 = Some ic"
  using assms by (auto simp add: instance_connector_def split: option.splits)

lemma instance_connector_cached:
  assumes "cached_instance_connector self = Some ic"
  shows "instance_connector E self = (Some ic, self)"
  using assms by (simp add: instance_connector_def)

lemmas example_defs = example_pipe_def example_env_def example_registry_def empty_world_def
  fetched_rows_def stored_rows_def

section \<open>Properties of \<open>sync\<close>: the early returns\<close>

text \<open>
  C3. A pipe whose source connector resolves to null (nothing cached, and the registry
  knows no connector for its keys), synchronised without a frame, returns the tuple
  \<open>(False, "Cannot fetch without a connector")\<close>; the pipe object and the world are
  left as they were: no call is recorded and no storage object changes.
\<close>

theorem sync_without_connector:
  assumes "cached_connector self = None"
    and "parse_connector_keys E (connector_keys self) = None"
  shows "sync E self None w = Inr (RTuple False ''Cannot fetch without a connector'', self, w)"
  using assms by (simp add: sync_def connector_def)

theorem sync_without_connector_witness:
  "cached_connector (example_pipe ''none:main'' ''sql:main'') = None
   \<and> parse_connector_keys (example_env None stored_rows)
         (connector_keys (example_pipe ''none:main'' ''sql:main'')) = None
   \<and> sync (example_env None stored_rows) (example_pipe ''none:main'' ''sql:main'') None
         empty_world
       = Inr (RTuple False ''Cannot fetch without a connector'',
              example_pipe ''none:main'' ''sql:main'', empty_world)"
  using sync_without_connector [of "example_pipe ''none:main'' ''sql:main''"
      "example_env None stored_rows" empty_world]
  by (simp add: example_pipe_def example_env_def example_registry_def)

text \<open>
  C4, as stated, fails: a pipe whose instance connector is an API connector and whose
  source connector is null, synchronised without a frame, returns the no-connector
  failure and hands nothing to \<open>sync_pipe\<close>, which would have returned
  \<open>(True, "Success")\<close>.
\<close>

theorem sync_api_without_connector:
  "fst (instance_connector (example_env None stored_rows)
          (example_pipe ''none:main'' ''api:main''))
     = Some \<lparr>conn_type = ''api'', conn_label = ''main'', conn_flavor = []\<rparr>
   \<and> sync_pipe_result (example_env None stored_rows)
         (str_of (example_pipe ''none:main'' ''api:main'')) None = RTuple True ''Success''
   \<and> sync (example_env None stored_rows) (example_pipe ''none:main'' ''api:main'') None
         empty_world
       = Inr (RTuple False ''Cannot fetch without a connector'',
              example_pipe ''none:main'' ''api:main'', empty_world)"
  by (simp add: sync_def connector_def instance_connector_def example_defs)

text \<open>
  C4, amended. For a pipe whose instance connector is an API connector, once \<open>sync\<close>
  has rows at hand (a frame is given, or the source connector resolves and the frame is
  fetched), it hands the pipe and the frame to the connector's \<open>sync_pipe\<close> and returns
  its result as it is. The only calls are the fetch, when no frame was given, and
  \<open>sync_pipe\<close>: no datetime column is required, nothing is registered, probed, read
  back or appended, and no storage object changes.
\<close>

theorem sync_api_forwards:
  assumes "fst (instance_connector E self) = Some ic"
    and "conn_type ic = ''api''"
    and "rows \<noteq> None \<or> fst (connector E self) \<noteq> None"
  shows "\<exists>self1. sync E self rows w =
           Inr (sync_pipe_result E (str_of self)
                  (if rows = None then fetch_result E (str_of self) else rows),
                self1,
                w\<lparr>calls := calls w
                   @ (if rows = None then [Fetch (str_of self)] else [])
                   @ [SyncPipe (keys_of ic) (str_of self)
                        (if rows = None then fetch_result E (str_of self) else rows)]\<rparr>)"
proof (cases rows)
  case (Some f)
  obtain self1 where r: "instance_connector E self = (Some ic, self1)"
    using assms(1) by (cases "instance_connector E self") simp
  have "str_of self1 = str_of self"
    using instance_connector_keeps(1) [of E self] r by simp
  then show ?thesis
    using Some r assms(2) by (simp add: sync_def sync_instance_def emit_def)
next
  case None
  then obtain c self0 where c: "connector E self = (Some c, self0)"
    using assms(3) by (cases "connector E self") auto
  have n0: "str_of self0 = str_of self"
    using connector_keeps(1) [of E self] c by simp
  have "fst (instance_connector E self0) = Some ic"
    using instance_connector_after_connector [of E self] c assms(1) by simp
  then obtain self1 where r: "instance_connector E self0 = (Some ic, self1)"
    by (cases "instance_connector E self0") simp
  have "str_of self1 = str_of self"
    using instance_connector_keeps(1) [of E self0] r n0 by simp
  then show ?thesis
    using None c r n0 assms(2) by (simp add: sync_def sync_instance_def emit_def)
qed

theorem sync_api_forwards_witness:
  "fst (instance_connector (example_env (Some fetched_rows) stored_rows)
          (example_pipe ''sql:main'' ''api:main''))
     = Some \<lparr>conn_type = ''api'', conn_label = ''main'', conn_flavor = []\<rparr>
   \<and> fst (connector (example_env (Some fetched_rows) stored_rows)
          (example_pipe ''sql:main'' ''api:main'')) \<noteq> None
   \<and> (\<exists>self1. sync (example_env (Some fetched_rows) stored_rows)
                 (example_pipe ''sql:main'' ''api:main'') None empty_world
         = Inr (RTuple True ''Success'', self1,
                \<lparr>tables = Map.empty,
                 calls = [Fetch ''sql_main_cpu'',
                          SyncPipe ''api:main'' ''sql_main_cpu'' (Some fetched_rows)]\<rparr>))"
proof -
  let ?E = "example_env (Some fetched_rows) stored_rows"
  let ?P = "example_pipe ''sql:main'' ''api:main''"
  let ?c = "\<lparr>conn_type = ''api'', conn_label = ''main'', conn_flavor = []\<rparr>"
  have i: "fst (instance_connector ?E ?P) = Some ?c"
    by (simp add: instance_connector_def example_defs)
  have t: "conn_type ?c = ''api''" by simp
  have c: "None \<noteq> None \<or> fst (connector ?E ?P) \<noteq> None"
    by (simp add: connector_def example_defs)
  have n: "str_of ?P = ''sql_main_cpu''"
    by (simp add: str_of_def example_pipe_def)
  show ?thesis
    using sync_api_forwards [OF i t c, of empty_world] i c n
    by (simp add: keys_of_def example_env_def empty_world_def)
qed

text \<open>
  C2, at failing inputs. When the fetch yields nothing and the source is not an MQTT
  connector, \<open>sync\<close> warns and returns Python's \<open>None\<close>, which is no tuple
  \<open>(success, message)\<close>. When the pipe declares no datetime column, \<open>sync\<close> has no
  failure to return: line 41 keeps nothing of what \<open>get_columns\<close> yields, and the call
  ends in an exception before any call is recorded.
\<close>

theorem sync_empty_fetch_returns_none:
  "(\<exists>self1 w1.
      sync (example_env None stored_rows) (example_pipe ''sql:main'' ''sql:main'') None
        empty_world = Inr (RNone, self1, w1)
      \<and> last (calls w1) = Warn (''Was not able to sync '' @ quoted ''sql_main_cpu''))
   \<and> \<not> (\<exists>b m self1 w1.
        sync (example_env None stored_rows) (example_pipe ''sql:main'' ''sql:main'') None
          empty_world = Inr (RTuple b m, self1, w1))
   \<and> sync (example_env None stored_rows)
         ((example_pipe ''sql:main'' ''sql:main'')\<lparr>parameters := None\<rparr>)
         (Some fetched_rows) empty_world
       = Inl (MissingColumn, empty_world)"
  by (simp add: sync_def sync_instance_def sync_local_def connector_def instance_connector_def
      get_columns_def columns_def pipe_id_def truthy_def and_then_def Let_def emit_def
      str_of_def example_defs)

section \<open>Properties of \<open>get_backtrack_data\<close>\<close>

lemma get_sync_time_returns:
  assumes "fst (instance_connector E self) = Some ic"
  shows "\<exists>v self1 w1 e. get_sync_time E self w = Inr (v, self1, w1)
           \<and> str_of self1 = str_of self \<and> parameters self1 = parameters self
           \<and> fst (instance_connector E self1) = Some ic
           \<and> tables w1 = tables w \<and> calls w1 = calls w @ [e]
           \<and> cached_sync_time self1 = cached_sync_time self"
proof -
  obtain self1 where r: "instance_connector E self = (Some ic, self1)"
    using assms by (cases "instance_connector E self") simp
  have k: "str_of self1 = str_of self" "parameters self1 = parameters self"
      "cached_sync_time self1 = cached_sync_time self"
    using instance_connector_keeps(1,2,6) [of E self] r by simp_all
  have i: "fst (instance_connector E self1) = Some ic"
    using instance_connector_cached [OF instance_connector_caches [OF r]] by simp
  show ?thesis
    using r k i assms
    by (auto simp add: get_sync_time_def emit_def split: option.splits)
qed

lemma cached_sync_time_update:
  "str_of (self\<lparr>cached_sync_time := x\<rparr>) = str_of self"
  "fst (instance_connector E (self\<lparr>cached_sync_time := x\<rparr>)) = fst (instance_connector E self)"
  by (simp_all add: str_of_def instance_connector_def split: option.splits)

lemma sync_time_returns:
  assumes "fst (instance_connector E self) = Some ic"
  shows "\<exists>v self1 w1. sync_time E self w = Inr (v, self1, w1)
           \<and> str_of self1 = str_of self \<and> parameters self1 = parameters self
           \<and> fst (instance_connector E self1) = Some ic
           \<and> tables w1 = tables w"
proof (cases "cached_sync_time self")
  case None
  obtain v self1 w1 where g: "get_sync_time E self w = Inr (v, self1, w1)"
      and k: "str_of self1 = str_of self" "parameters self1 = parameters self"
        "fst (instance_connector E self1) = Some ic" "tables w1 = tables w"
    using get_sync_time_returns [OF assms] by blast
  show ?thesis
    using None g k
    by (cases v) (simp_all add: sync_time_def and_then_def cached_sync_time_update)
next
  case (Some v)
  then show ?thesis
    using assms
    by (cases v) (simp_all add: sync_time_def and_then_def cached_sync_time_update)
qed

text \<open>
  C10. Whenever \<open>get_backtrack_data\<close> reaches the instance connector, the minutes it
  passes are the entry \<open>fetch.backtrack_minutes\<close> of the pipe's parameters if there is
  one, whatever the caller gave as \<open>backtrack_minutes\<close>; the caller's argument is passed
  only when the lookup fails (no parameters, no \<open>fetch\<close> entry, or no
  \<open>backtrack_minutes\<close> in it). A \<open>begin\<close> given by the caller is passed on as it is.
\<close>

theorem backtrack_minutes_from_parameters:
  assumes "fst (instance_connector E self) = Some ic"
  shows "\<exists>begin1 self1 w1.
           get_backtrack_data E self backtrack_minutes begin w
             = Inr (backtrack_result E (keys_of ic) (str_of self)
                      (case parameters self of
                         None \<Rightarrow> backtrack_minutes
                       | Some ps \<Rightarrow>
                           (case p_fetch ps of
                              None \<Rightarrow> backtrack_minutes
                            | Some f \<Rightarrow>
                                (case map_of f ''backtrack_minutes'' of
                                   None \<Rightarrow> backtrack_minutes
                                 | Some m \<Rightarrow> m))) begin1, self1, w1)
           \<and> last (calls w1)
               = GetBacktrackData (keys_of ic) (str_of self)
                      (case parameters self of
                         None \<Rightarrow> backtrack_minutes
                       | Some ps \<Rightarrow>
                           (case p_fetch ps of
                              None \<Rightarrow> backtrack_minutes
                            | Some f \<Rightarrow>
                                (case map_of f ''backtrack_minutes'' of
                                   None \<Rightarrow> backtrack_minutes
                                 | Some m \<Rightarrow> m))) begin1
           \<and> (begin = None \<or> begin1 = begin)"
proof -
  obtain v self1 w1 where s: "(case begin of None \<Rightarrow> sync_time E self w
                                | Some b \<Rightarrow> Inr (Some b, self, w)) = Inr (v, self1, w1)"
      and k: "str_of self1 = str_of self" "fst (instance_connector E self1) = Some ic"
      and b: "begin = None \<or> v = begin"
  proof (cases "begin")
    case None
    then show ?thesis using sync_time_returns [OF assms, of w] that by auto
  next
    case (Some b)
    then show ?thesis using assms that by auto
  qed
  obtain self2 where r: "instance_connector E self1 = (Some ic, self2)"
    using k(2) by (cases "instance_connector E self1") simp
  have n: "str_of self2 = str_of self"
    using instance_connector_keeps(1) [of E self1] r k(1) by simp
  show ?thesis
    using s r n b
    by (simp add: get_backtrack_data_def and_then_def emit_def fetch_backtrack_minutes_def
        split: option.splits)
qed

theorem backtrack_minutes_from_parameters_witness:
  "fst (instance_connector (example_env None stored_rows)
          ((example_pipe ''sql:main'' ''sql:main'')
             \<lparr>parameters := Some \<lparr>p_columns = Some [(''datetime'', ''ts'')],
                                   p_fetch = Some [(''backtrack_minutes'', 1440)]\<rparr>\<rparr>))
     = Some \<lparr>conn_type = ''sql'', conn_label = ''main'', conn_flavor = ''timescaledb''\<rparr>
   \<and> (\<exists>begin1 self1 w1.
         get_backtrack_data (example_env None stored_rows)
           ((example_pipe ''sql:main'' ''sql:main'')
              \<lparr>parameters := Some \<lparr>p_columns = Some [(''datetime'', ''ts'')],
                                    p_fetch = Some [(''backtrack_minutes'', 1440)]\<rparr>\<rparr>)
           5 (Some 36000) empty_world
           = Inr (stored_rows, self1, w1)
         \<and> last (calls w1) = GetBacktrackData ''sql:main'' ''sql_main_cpu'' 1440 begin1
         \<and> begin1 = Some 36000)
   \<and> (\<exists>begin1 self1 w1.
         get_backtrack_data (example_env None stored_rows)
           (example_pipe ''sql:main'' ''sql:main'') 5 (Some 36000) empty_world
           = Inr (stored_rows, self1, w1)
         \<and> last (calls w1) = GetBacktrackData ''sql:main'' ''sql_main_cpu'' 5 begin1
         \<and> begin1 = Some 36000)"
proof -
  let ?E = "example_env None stored_rows"
  let ?P = "(example_pipe ''sql:main'' ''sql:main'')
             \<lparr>parameters := Some \<lparr>p_columns = Some [(''datetime'', ''ts'')],
                                   p_fetch = Some [(''backtrack_minutes'', 1440)]\<rparr>\<rparr>"
  let ?Q = "example_pipe ''sql:main'' ''sql:main''"
  let ?c = "\<lparr>conn_type = ''sql'', conn_label = ''main'', conn_flavor = ''timescaledb''\<rparr>"
  have i: "fst (instance_connector ?E ?P) = Some ?c"
    by (simp add: instance_connector_def example_defs)
  have j: "fst (instance_connector ?E ?Q) = Some ?c"
    by (simp add: instance_connector_def example_defs)
  have n: "str_of ?P = ''sql_main_cpu''" "str_of ?Q = ''sql_main_cpu''"
    by (simp_all add: str_of_def example_pipe_def)
  have k: "keys_of ?c = ''sql:main''"
    by (simp add: keys_of_def)
  have p: "parameters ?P = Some \<lparr>p_columns = Some [(''datetime'', ''ts'')],
                                   p_fetch = Some [(''backtrack_minutes'', 1440)]\<rparr>"
      "parameters ?Q = Some \<lparr>p_columns = Some [(''datetime'', ''ts'')], p_fetch = None\<rparr>"
    by (simp_all add: example_pipe_def)
  have b: "\<And>k name m b. backtrack_result ?E k name m b = stored_rows"
    by (simp add: example_env_def)
  have 1: "\<exists>begin1 self1 w1.
         get_backtrack_data ?E ?P 5 (Some 36000) empty_world = Inr (stored_rows, self1, w1)
         \<and> last (calls w1) = GetBacktrackData ''sql:main'' ''sql_main_cpu'' 1440 begin1
         \<and> begin1 = Some 36000"
    using backtrack_minutes_from_parameters [OF i, of 5 "Some 36000" empty_world]
    unfolding n k p b by simp
  have 2: "\<exists>begin1 self1 w1.
         get_backtrack_data ?E ?Q 5 (Some 36000) empty_world = Inr (stored_rows, self1, w1)
         \<and> last (calls w1) = GetBacktrackData ''sql:main'' ''sql_main_cpu'' 5 begin1
         \<and> begin1 = Some 36000"
    using backtrack_minutes_from_parameters [OF j, of 5 "Some 36000" empty_world]
    unfolding n k p b by simp
  show ?thesis using i 1 2 by blast
qed

section \<open>Properties of \<open>sync\<close>: the local algorithm\<close>

lemma backtrack_calls_append:
  "backtrack_calls (xs @ ys) = backtrack_calls xs @ backtrack_calls ys"
  by (induction xs rule: backtrack_calls.induct) simp_all

lemma to_sql_calls: "calls (to_sql c df name w) = calls w @ [ToSql (keys_of c) name df]"
  by (simp add: to_sql_def emit_def Let_def split: option.splits)

lemma sync_frame_run:
  assumes "cached_instance_connector self = Some ic"
    and "exists_query E (get_connector_sql_main E) self = Inr q"
    and "begin_of self df = Inr b"
  shows "sync_frame E sc self df w =
     (let w1 = emit (Value (keys_of (get_connector_sql_main E)) q) w;
          w2 = (if value_result E (keys_of (get_connector_sql_main E)) q = None
                then emit (CreateIndices (keys_of sc) (str_of self))
                       (to_sql sc (head0 df) (str_of self) w1)
                else w1);
          m = (case fetch_backtrack_minutes self of Some m \<Rightarrow> m | None \<Rightarrow> 0);
          w3 = emit (GetBacktrackData (keys_of ic) (str_of self) m (Some b)) w2
      in case new_data_df df (backtrack_result E (keys_of ic) (str_of self) m (Some b)) of
           Inl e \<Rightarrow> Inl (e, w3)
         | Inr new \<Rightarrow> Inr (RTuple True ''Success'', self, to_sql sc new (str_of self) w3))"
  using assms
  by (simp add: sync_frame_def exists_def get_backtrack_data_def and_then_def
      instance_connector_def Let_def)

lemma pipe_id_run:
  assumes "cached_instance_connector self = Some ic"
  shows "\<exists>i self1 w1. pipe_id E self w = Inr (i, self1, w1)
           \<and> str_of self1 = str_of self \<and> tables w1 = tables w
           \<and> parameters self1 = parameters self
           \<and> cached_instance_connector self1 = Some ic
           \<and> backtrack_calls (calls w1) = backtrack_calls (calls w)"
  using assms
  by (simp add: pipe_id_def emit_def str_of_def instance_connector_def Let_def
      backtrack_calls_append split: option.splits)

lemma sync_rows_run:
  assumes "fst (instance_connector E self) = Some ic"
    and "conn_type ic \<noteq> ''api''"
    and "get_columns self ''datetime'' = Inr dt"
  shows "\<exists>self1 w1. sync E self (Some f) w = sync_frame E ic self1 f w1
           \<and> cached_instance_connector self1 = Some ic
           \<and> str_of self1 = str_of self \<and> parameters self1 = parameters self
           \<and> tables w1 = tables w
           \<and> backtrack_calls (calls w1) = backtrack_calls (calls w)"
proof -
  obtain self0 where r: "instance_connector E self = (Some ic, self0)"
    using assms(1) by (cases "instance_connector E self") simp
  have k0: "str_of self0 = str_of self" "parameters self0 = parameters self"
    using instance_connector_keeps(1,2) [of E self] r by simp_all
  have g0: "get_columns self0 ''datetime'' = Inr dt"
    using get_columns_after(1) [of E self "''datetime''"] r assms(3) by simp
  obtain i self1 w1 where p: "pipe_id E self0 w = Inr (i, self1, w1)"
      and k1: "str_of self1 = str_of self0" "tables w1 = tables w"
        "parameters self1 = parameters self0" "cached_instance_connector self1 = Some ic"
        "backtrack_calls (calls w1) = backtrack_calls (calls w)"
    using pipe_id_run [OF instance_connector_caches [OF r], of E w] by blast
  show ?thesis
  proof (cases "truthy i")
    case True
    have "sync E self (Some f) w = sync_frame E ic self1 f w1"
      using True r assms(2) g0 p
      by (simp add: sync_def sync_instance_def sync_local_def and_then_def)
    then show ?thesis
      using k0 k1 by metis
  next
    case False
    let ?w = "emit (Register (str_of self1)) w1"
    have e: "sync E self (Some f) w = sync_frame E ic self1 f ?w"
      using False r assms(2) g0 p
      by (simp add: sync_def sync_instance_def sync_local_def and_then_def)
    have "tables ?w = tables w" "backtrack_calls (calls ?w) = backtrack_calls (calls w)"
      using k1 by (simp_all add: emit_def backtrack_calls_append)
    then show ?thesis
      using e k0 k1 by metis
  qed
qed

lemma minimum_Min: "ts \<noteq> [] \<Longrightarrow> minimum ts = Some (Min (set ts))"
proof (induction ts)
  case Nil
  then show ?case by simp
next
  case (Cons t ts)
  then show ?case by (cases ts) (simp_all add: min.commute)
qed

lemma exists_query_flavor:
  assumes "conn_flavor c \<in> {''timescaledb'', ''postgresql'', ''mssql'', ''mysql'', ''mariadb''}"
  shows "\<exists>q. exists_query E c self = Inr q"
  using assms by (auto simp add: exists_query_def)

lemma exists_query_name:
  "str_of self1 = str_of self \<Longrightarrow> exists_query E c self1 = exists_query E c self"
  by (simp add: exists_query_def)

lemma sync_rows_outcome:
  assumes "fst (instance_connector E self) = Some ic"
    and "conn_type ic \<noteq> ''api''"
    and "conn_flavor (get_connector_sql_main E)
           \<in> {''timescaledb'', ''postgresql'', ''mssql'', ''mysql'', ''mariadb''}"
    and "columns self = Some cs"
    and "map_of cs ''datetime'' = Some dt"
    and "column_cells df dt = Inr cells"
    and "set cells \<subseteq> insert NaN (range Stamp)"
    and "stamps cells \<noteq> []"
  shows "\<exists>self1 w3.
           backtrack_calls (calls w3)
             = backtrack_calls (calls w)
               @ [(case fetch_backtrack_minutes self of Some m \<Rightarrow> m | None \<Rightarrow> 0,
                   Some (60 * (Min (set (stamps cells)) div 60) - 60))]
           \<and> sync E self (Some df) w
             = (case new_data_df df
                       (backtrack_result E (keys_of ic) (str_of self)
                          (case fetch_backtrack_minutes self of Some m \<Rightarrow> m | None \<Rightarrow> 0)
                          (Some (60 * (Min (set (stamps cells)) div 60) - 60))) of
                  Inl e \<Rightarrow> Inl (e, w3)
                | Inr new \<Rightarrow>
                    Inr (RTuple True ''Success'', self1, to_sql ic new (str_of self) w3))"
proof -
  let ?b = "60 * (Min (set (stamps cells)) div 60) - 60"
  have g: "get_columns self ''datetime'' = Inr dt"
    using assms(4,5) by (simp add: get_columns_def)
  obtain self1 w1 where s: "sync E self (Some df) w = sync_frame E ic self1 df w1"
      and k: "cached_instance_connector self1 = Some ic" "str_of self1 = str_of self"
        "parameters self1 = parameters self"
        "backtrack_calls (calls w1) = backtrack_calls (calls w)"
    using sync_rows_run [OF assms(1,2) g] by blast
  have a: "list_all (\<lambda>x. case x of NaN \<Rightarrow> True | Stamp t \<Rightarrow> True | _ \<Rightarrow> False) cells"
    using assms(7) by (auto simp add: list_all_iff)
  have m: "min_datetime cells = Inr (Min (set (stamps cells)))"
    using a minimum_Min [OF assms(8)] by (simp add: min_datetime_def)
  have r: "round_time_down (Min (set (stamps cells))) - 60 = ?b"
    by (simp add: round_time_down_def minus_mod_eq_mult_div)
  have b: "begin_of self1 df = Inr ?b"
    using assms(4,5,6) k(3) m r by (simp add: begin_of_def columns_def)
  obtain q where q: "exists_query E (get_connector_sql_main E) self1 = Inr q"
    using exists_query_flavor [OF assms(3)] by blast
  have f: "fetch_backtrack_minutes self1 = fetch_backtrack_minutes self"
    using k(3) by (simp add: fetch_backtrack_minutes_def)
  let ?m = "case fetch_backtrack_minutes self of Some m \<Rightarrow> m | None \<Rightarrow> 0"
  let ?w1 = "emit (Value (keys_of (get_connector_sql_main E)) q) w1"
  let ?w2 = "if value_result E (keys_of (get_connector_sql_main E)) q = None
             then emit (CreateIndices (keys_of ic) (str_of self))
                    (to_sql ic (head0 df) (str_of self) ?w1)
             else ?w1"
  let ?w3 = "emit (GetBacktrackData (keys_of ic) (str_of self) ?m (Some ?b)) ?w2"
  have c: "backtrack_calls (calls ?w3) = backtrack_calls (calls w) @ [(?m, Some ?b)]"
    using k(4) by (simp add: emit_def to_sql_calls backtrack_calls_append)
  have e: "sync E self (Some df) w
      = (case new_data_df df (backtrack_result E (keys_of ic) (str_of self) ?m (Some ?b)) of
           Inl e \<Rightarrow> Inl (e, ?w3)
         | Inr new \<Rightarrow> Inr (RTuple True ''Success'', self1, to_sql ic new (str_of self) ?w3))"
    unfolding s sync_frame_run [OF k(1) q b] k(2) f Let_def
    by simp
  show ?thesis
    using c e by blast
qed




text \<open>
  C1, at a failing input. The rows fetched are those of 10:01 and 10:02, the rows
  retrieved by \<open>get_backtrack_data\<close> those of 10:00 and 10:01, and the row of 10:01 is
  the same in both. The merge step of the code compares the frames cell by cell at
  equal index labels, finds no equal cell and keeps both fetched rows; the merge step in
  the words of the specification keeps the row of 10:02 only. \<open>sync\<close> then appends both
  rows, so the row of 10:01 is stored a second time.
\<close>

theorem merge_keeps_seen_row:
  "new_data_df fetched_rows stored_rows = Inr fetched_rows
   \<and> spec_new_rows fetched_rows stored_rows = [(1, [Stamp 36120, Num 3])]
   \<and> (\<exists>self1 w1.
         sync (example_env None stored_rows) (example_pipe ''sql:main'' ''sql:main'')
           (Some fetched_rows) empty_world = Inr (RTuple True ''Success'', self1, w1)
         \<and> last (calls w1) = ToSql ''sql:main'' ''sql_main_cpu'' fetched_rows)"
proof -
  let ?E = "example_env None stored_rows"
  let ?P = "example_pipe ''sql:main'' ''sql:main''"
  let ?c = "\<lparr>conn_type = ''sql'', conn_label = ''main'', conn_flavor = ''timescaledb''\<rparr>"
  have n: "new_data_df fetched_rows stored_rows = Inr fetched_rows"
    by (simp add: new_data_df_def isin_def fetched_rows_def stored_rows_def where_not_def
        dropna_all_def lookup_cell_def cell_eq_def)
  have p: "spec_new_rows fetched_rows stored_rows = [(1, [Stamp 36120, Num 3])]"
    by (simp add: spec_new_rows_def fetched_rows_def stored_rows_def)
  have 1: "fst (instance_connector ?E ?P) = Some ?c"
    by (simp add: instance_connector_def example_defs)
  have 2: "conn_type ?c \<noteq> ''api''" by simp
  have 3: "conn_flavor (get_connector_sql_main ?E)
           \<in> {''timescaledb'', ''postgresql'', ''mssql'', ''mysql'', ''mariadb''}"
    by (simp add: example_env_def)
  have 4: "columns ?P = Some [(''datetime'', ''ts'')]"
    by (simp add: columns_def example_pipe_def)
  have 5: "map_of [(''datetime'', ''ts'')] ''datetime'' = Some ''ts''" by simp
  have 6: "column_cells fetched_rows ''ts'' = Inr [Stamp 36060, Stamp 36120]"
    by (simp add: column_cells_def fetched_rows_def)
  have 7: "set [Stamp 36060, Stamp 36120] \<subseteq> insert NaN (range Stamp)" by simp
  have 8: "stamps [Stamp 36060, Stamp 36120] \<noteq> []" by simp
  have b: "\<And>k name m b. backtrack_result ?E k name m b = stored_rows"
    by (simp add: example_env_def)
  have s: "str_of ?P = ''sql_main_cpu''" "keys_of ?c = ''sql:main''"
    by (simp_all add: str_of_def keys_of_def example_pipe_def)
  have "\<exists>self1 w1.
         sync ?E ?P (Some fetched_rows) empty_world = Inr (RTuple True ''Success'', self1, w1)
         \<and> last (calls w1) = ToSql ''sql:main'' ''sql_main_cpu'' fetched_rows"
    using sync_rows_outcome [OF 1 2 3 4 5 6 7 8, of empty_world]
    unfolding b n s by (auto simp add: to_sql_calls s)
  then show ?thesis
    using n p by blast
qed

section \<open>Properties of \<open>exists\<close>\<close>

text \<open>
  C8, at a failing input. The pipe's instance connector is the MSSQL connector
  \<open>sql:other\<close>; the one query \<open>exists\<close> issues goes to \<open>sql:main\<close>, in the form of
  that connector's flavor.
\<close>

theorem exists_probes_sql_main:
  "fst (instance_connector (example_env None stored_rows)
          (example_pipe ''sql:main'' ''sql:other''))
     = Some \<lparr>conn_type = ''sql'', conn_label = ''other'', conn_flavor = ''mssql''\<rparr>
   \<and> calls (world_of (exists (example_env None stored_rows)
                         (example_pipe ''sql:main'' ''sql:other'') empty_world))
       = [Value ''sql:main'' (''SELECT to_regclass('' @ quoted ''sql_main_cpu'' @ '')'')]"
  by (simp add: exists_def exists_query_def instance_connector_def world_of_def emit_def
      keys_of_def str_of_def quoted_def example_defs)

section \<open>Properties of the lazy attributes \<open>id\<close> and \<open>sync_time\<close>\<close>

lemma stored_sync_time_emit: "stored_sync_time (emit e w) k dt = stored_sync_time w k dt"
  by (simp add: stored_sync_time_def emit_def)

lemma cached_sync_time_update_more:
  "columns (self\<lparr>cached_sync_time := x\<rparr>) = columns self"
  "connector_keys (self\<lparr>cached_sync_time := x\<rparr>) = connector_keys self"
  "instance_connector E (self\<lparr>cached_sync_time := x\<rparr>)
     = (fst (instance_connector E self),
        (snd (instance_connector E self))\<lparr>cached_sync_time := x\<rparr>)"
  by (simp_all add: columns_def instance_connector_def split: option.splits)

lemma get_sync_time_null:
  assumes "get_sync_time E self w = Inr (None, self1, w1)"
  shows "\<exists>e. w1 = emit e w
           \<and> cached_sync_time self1 = cached_sync_time self
           \<and> get_sync_time E (self1\<lparr>cached_sync_time := None\<rparr>) w1
               = Inr (None, self1\<lparr>cached_sync_time := None\<rparr>, emit e w1)
           \<and> (\<forall>cs dt ic. columns self = Some cs \<and> map_of cs ''datetime'' = Some dt
                  \<and> fst (instance_connector E self) = Some ic
                \<longrightarrow> e = GetSyncTime (keys_of ic) (str_of self))"
proof (cases "columns self")
  case None
  then show ?thesis
    using assms
    by (auto simp add: get_sync_time_def cached_sync_time_update cached_sync_time_update_more)
next
  case (Some cs)
  show ?thesis
  proof (cases "map_of cs ''datetime''")
    case None
    then show ?thesis
      using assms Some
      by (auto simp add: get_sync_time_def cached_sync_time_update cached_sync_time_update_more
          str_of_def)
  next
    case dt: (Some dt)
    obtain ic where r: "instance_connector E self = (Some ic, self1)"
      and w1: "w1 = emit (GetSyncTime (keys_of ic) (str_of self1)) w"
      and n: "stored_sync_time w (keys_of ic, str_of self1) dt = None"
      using assms Some dt
      by (cases "instance_connector E self")
         (auto simp add: get_sync_time_def split: option.splits)
    have k: "str_of self1 = str_of self" "parameters self1 = parameters self"
      "cached_sync_time self1 = cached_sync_time self"
      using instance_connector_keeps(1,2,6) [of E self] r by simp_all
    have c: "instance_connector E self1 = (Some ic, self1)"
      using instance_connector_cached [OF instance_connector_caches [OF r]] .
    have cols: "columns self1 = Some cs"
      using k(2) Some by (simp add: columns_def)
    show ?thesis
      using Some dt r w1 n k c cols
      by (auto simp add: get_sync_time_def cached_sync_time_update
          cached_sync_time_update_more stored_sync_time_emit)
  qed
qed

text \<open>
  C9. When \<open>get_pipe_id\<close> is called (no truthy \<open>_id\<close> is cached) and returns a falsy
  id, the property \<open>id\<close> returns it and leaves no truthy cached value, and the next
  access calls \<open>get_pipe_id\<close> again. When \<open>get_sync_time\<close> is called (no \<open>_sync_time\<close>
  is cached) and returns null, the property \<open>sync_time\<close> returns null and leaves no
  cached entry, and the next access makes the same call again: the query to the instance
  connector, when the pipe declares its datetime column. An entry \<open>_sync_time\<close> that
  holds null is deleted and null returned.
\<close>

theorem falsy_attributes_not_cached:
  "(fst (instance_connector E self) = Some ic
      \<and> \<not> (case cached_id self of None \<Rightarrow> False | Some v \<Rightarrow> truthy v)
      \<and> \<not> truthy (get_pipe_id_result E (keys_of ic) (str_of self))
    \<longrightarrow> (\<exists>v self1 self2.
           pipe_id E self w = Inr (v, self1, emit (GetPipeId (keys_of ic) (str_of self)) w)
           \<and> \<not> truthy v
           \<and> \<not> (case cached_id self1 of None \<Rightarrow> False | Some v \<Rightarrow> truthy v)
           \<and> pipe_id E self1 (emit (GetPipeId (keys_of ic) (str_of self)) w)
               = Inr (v, self2,
                      emit (GetPipeId (keys_of ic) (str_of self))
                        (emit (GetPipeId (keys_of ic) (str_of self)) w))))
   \<and> (cached_sync_time self = None \<and> get_sync_time E self w = Inr (None, self1, w1)
    \<longrightarrow> (\<exists>self2 self3 e.
           sync_time E self w = Inr (None, self2, w1)
           \<and> cached_sync_time self2 = None
           \<and> calls w1 = calls w @ [e]
           \<and> sync_time E self2 w1 = Inr (None, self3, emit e w1)
           \<and> cached_sync_time self3 = None
           \<and> (\<forall>cs dt ic. columns self = Some cs \<and> map_of cs ''datetime'' = Some dt
                  \<and> fst (instance_connector E self) = Some ic
                \<longrightarrow> e = GetSyncTime (keys_of ic) (str_of self))))
   \<and> (cached_sync_time self = Some None
    \<longrightarrow> sync_time E self w = Inr (None, self\<lparr>cached_sync_time := None\<rparr>, w))"
proof (intro conjI impI)
  assume h: "fst (instance_connector E self) = Some ic
      \<and> \<not> (case cached_id self of None \<Rightarrow> False | Some v \<Rightarrow> truthy v)
      \<and> \<not> truthy (get_pipe_id_result E (keys_of ic) (str_of self))"
  obtain self0 where r: "instance_connector E self = (Some ic, self0)"
    using h by (cases "instance_connector E self") simp
  have k: "str_of self0 = str_of self"
    using instance_connector_keeps(1) [of E self] r by simp
  let ?v = "get_pipe_id_result E (keys_of ic) (str_of self)"
  let ?e = "GetPipeId (keys_of ic) (str_of self)"
  let ?self1 = "self0\<lparr>cached_id := Some ?v\<rparr>"
  have 1: "pipe_id E self w = Inr (?v, ?self1, emit ?e w)"
    using h r k by (simp add: pipe_id_def Let_def)
  have c: "instance_connector E ?self1 = (Some ic, ?self1)"
    using instance_connector_caches [OF r] by (simp add: instance_connector_def)
  have n: "str_of ?self1 = str_of self"
    using k by (simp add: str_of_def)
  have 2: "pipe_id E ?self1 (emit ?e w) = Inr (?v, ?self1, emit ?e (emit ?e w))"
    using h c n by (simp add: pipe_id_def Let_def)
  show "\<exists>v self1 self2.
           pipe_id E self w = Inr (v, self1, emit (GetPipeId (keys_of ic) (str_of self)) w)
           \<and> \<not> truthy v
           \<and> \<not> (case cached_id self1 of None \<Rightarrow> False | Some v \<Rightarrow> truthy v)
           \<and> pipe_id E self1 (emit (GetPipeId (keys_of ic) (str_of self)) w)
               = Inr (v, self2,
                      emit (GetPipeId (keys_of ic) (str_of self))
                        (emit (GetPipeId (keys_of ic) (str_of self)) w))"
    using 1 2 h by (intro exI [of _ ?v] exI [of _ ?self1]) simp
next
  assume h: "cached_sync_time self = None \<and> get_sync_time E self w = Inr (None, self1, w1)"
  obtain e where w1: "w1 = emit e w"
    and c1: "cached_sync_time self1 = cached_sync_time self"
    and g: "get_sync_time E (self1\<lparr>cached_sync_time := None\<rparr>) w1
               = Inr (None, self1\<lparr>cached_sync_time := None\<rparr>, emit e w1)"
    and e: "\<forall>cs dt ic. columns self = Some cs \<and> map_of cs ''datetime'' = Some dt
                  \<and> fst (instance_connector E self) = Some ic
                \<longrightarrow> e = GetSyncTime (keys_of ic) (str_of self)"
    using get_sync_time_null [of E self w self1 w1] h by blast
  let ?self2 = "self1\<lparr>cached_sync_time := None\<rparr>"
  have 1: "sync_time E self w = Inr (None, ?self2, w1)"
    using h by (simp add: sync_time_def and_then_def)
  have 2: "sync_time E ?self2 w1 = Inr (None, ?self2, emit e w1)"
    using g by (simp add: sync_time_def and_then_def)
  have 3: "calls w1 = calls w @ [e]"
    using w1 by (simp add: emit_def)
  show "\<exists>self2 self3 e.
           sync_time E self w = Inr (None, self2, w1)
           \<and> cached_sync_time self2 = None
           \<and> calls w1 = calls w @ [e]
           \<and> sync_time E self2 w1 = Inr (None, self3, emit e w1)
           \<and> cached_sync_time self3 = None
           \<and> (\<forall>cs dt ic. columns self = Some cs \<and> map_of cs ''datetime'' = Some dt
                  \<and> fst (instance_connector E self) = Some ic
                \<longrightarrow> e = GetSyncTime (keys_of ic) (str_of self))"
    using 1 2 3 e by (intro exI [of _ ?self2] exI [of _ e]) simp
next
  assume "cached_sync_time self = Some None"
  then show "sync_time E self w = Inr (None, self\<lparr>cached_sync_time := None\<rparr>, w)"
    by (simp add: sync_time_def and_then_def)
qed

theorem falsy_attributes_not_cached_witness:
  "(\<exists>v self1 self2.
      pipe_id (example_env None stored_rows) (example_pipe ''sql:main'' ''sql:main'') empty_world
        = Inr (v, self1, \<lparr>tables = Map.empty,
                          calls = [GetPipeId ''sql:main'' ''sql_main_cpu'']\<rparr>)
      \<and> \<not> truthy v
      \<and> \<not> (case cached_id self1 of None \<Rightarrow> False | Some v \<Rightarrow> truthy v)
      \<and> pipe_id (example_env None stored_rows) self1
           \<lparr>tables = Map.empty, calls = [GetPipeId ''sql:main'' ''sql_main_cpu'']\<rparr>
          = Inr (v, self2, \<lparr>tables = Map.empty,
                            calls = [GetPipeId ''sql:main'' ''sql_main_cpu'',
                                     GetPipeId ''sql:main'' ''sql_main_cpu'']\<rparr>))
   \<and> (\<exists>self2 self3.
        sync_time (example_env None stored_rows) (example_pipe ''sql:main'' ''sql:main'')
          empty_world
          = Inr (None, self2, \<lparr>tables = Map.empty,
                               calls = [GetSyncTime ''sql:main'' ''sql_main_cpu'']\<rparr>)
        \<and> cached_sync_time self2 = None
        \<and> sync_time (example_env None stored_rows) self2
             \<lparr>tables = Map.empty, calls = [GetSyncTime ''sql:main'' ''sql_main_cpu'']\<rparr>
            = Inr (None, self3, \<lparr>tables = Map.empty,
                                 calls = [GetSyncTime ''sql:main'' ''sql_main_cpu'',
                                          GetSyncTime ''sql:main'' ''sql_main_cpu'']\<rparr>))
   \<and> sync_time (example_env None stored_rows)
         ((example_pipe ''sql:main'' ''sql:main'')\<lparr>cached_sync_time := Some None\<rparr>)
         empty_world
       = Inr (None, example_pipe ''sql:main'' ''sql:main'', empty_world)"
proof -
  let ?E = "example_env None stored_rows"
  let ?P = "example_pipe ''sql:main'' ''sql:main''"
  let ?c = "\<lparr>conn_type = ''sql'', conn_label = ''main'', conn_flavor = ''timescaledb''\<rparr>"
  let ?P1 = "?P\<lparr>cached_instance_connector := Some ?c\<rparr>"
  let ?w1 = "\<lparr>tables = Map.empty, calls = [GetSyncTime ''sql:main'' ''sql_main_cpu'']\<rparr>"
  have i: "fst (instance_connector ?E ?P) = Some ?c"
    by (simp add: instance_connector_def example_defs)
  have n: "str_of ?P = ''sql_main_cpu''" "keys_of ?c = ''sql:main''"
    by (simp_all add: str_of_def keys_of_def example_pipe_def)
  have a: "\<not> (case cached_id ?P of None \<Rightarrow> False | Some v \<Rightarrow> truthy v)"
      "\<not> truthy (get_pipe_id_result ?E (keys_of ?c) (str_of ?P))"
    by (simp_all add: truthy_def example_defs)
  have cols: "columns ?P = Some [(''datetime'', ''ts'')]"
      "map_of [(''datetime'', ''ts'')] ''datetime'' = Some ''ts''"
    by (simp_all add: columns_def example_pipe_def)
  have g: "cached_sync_time ?P = None" "get_sync_time ?E ?P empty_world = Inr (None, ?P1, ?w1)"
    by (simp_all add: get_sync_time_def columns_def instance_connector_def
        stored_sync_time_def emit_def keys_of_def str_of_def example_defs)
  have s: "cached_sync_time (?P\<lparr>cached_sync_time := Some None\<rparr>) = Some None"
    by simp
  have u: "(?P\<lparr>cached_sync_time := Some None\<rparr>)\<lparr>cached_sync_time := None\<rparr> = ?P"
    by (simp add: example_pipe_def)
  note t = falsy_attributes_not_cached [of ?E ?P ?c empty_world ?P1 ?w1]
  note t' = falsy_attributes_not_cached
    [of ?E "?P\<lparr>cached_sync_time := Some None\<rparr>" ?c empty_world ?P1 ?w1]
  have 1: "\<exists>v self1 self2.
      pipe_id ?E ?P empty_world
        = Inr (v, self1, \<lparr>tables = Map.empty,
                          calls = [GetPipeId ''sql:main'' ''sql_main_cpu'']\<rparr>)
      \<and> \<not> truthy v
      \<and> \<not> (case cached_id self1 of None \<Rightarrow> False | Some v \<Rightarrow> truthy v)
      \<and> pipe_id ?E self1
           \<lparr>tables = Map.empty, calls = [GetPipeId ''sql:main'' ''sql_main_cpu'']\<rparr>
          = Inr (v, self2, \<lparr>tables = Map.empty,
                            calls = [GetPipeId ''sql:main'' ''sql_main_cpu'',
                                     GetPipeId ''sql:main'' ''sql_main_cpu'']\<rparr>)"
    using t i a unfolding n by (simp add: emit_def empty_world_def)
  obtain self2 self3 e where
    2: "sync_time ?E ?P empty_world = Inr (None, self2, ?w1)"
       "cached_sync_time self2 = None"
       "sync_time ?E self2 ?w1 = Inr (None, self3, emit e ?w1)"
       "\<forall>cs dt ic. columns ?P = Some cs \<and> map_of cs ''datetime'' = Some dt
                  \<and> fst (instance_connector ?E ?P) = Some ic
                \<longrightarrow> e = GetSyncTime (keys_of ic) (str_of ?P)"
    using t g by blast
  have e: "e = GetSyncTime ''sql:main'' ''sql_main_cpu''"
    using 2(4) cols i n by metis
  have 3: "sync_time ?E (?P\<lparr>cached_sync_time := Some None\<rparr>) empty_world
       = Inr (None, ?P, empty_world)"
    using t' s u by simp
  show ?thesis
    using 1 2(1,2,3) e 3 by (auto simp add: emit_def)
qed

section \<open>Properties of the stored sync time\<close>

lemma stamps_append: "stamps (xs @ ys) = stamps xs @ stamps ys"
  by (induction xs rule: stamps.induct) simp_all

lemma maximum_append:
  "maximum xs = Some t \<Longrightarrow> \<exists>t1. maximum (xs @ ys) = Some t1 \<and> t \<le> t1"
proof (induction xs arbitrary: t)
  case Nil
  then show ?case by simp
next
  case (Cons x xs)
  show ?case
  proof (cases "maximum xs")
    case None
    then have "xs = []" by (cases xs) (simp_all split: option.splits)
    then show ?thesis using Cons.prems by (simp split: option.splits)
  next
    case (Some m)
    then obtain m1 where "maximum (xs @ ys) = Some m1" "m \<le> m1"
      using Cons.IH by blast
    then show ?thesis using Cons.prems Some by auto
  qed
qed

lemma stored_sync_time_to_sql:
  assumes "stored_sync_time w k dt = Some t"
  shows "\<exists>t1. stored_sync_time (to_sql c df name w) k dt = Some t1 \<and> t \<le> t1"
proof (cases "k = (keys_of c, name)")
  case False
  then show ?thesis
    using assms
    by (simp add: stored_sync_time_def to_sql_def emit_def Let_def split: option.splits)
next
  case True
  obtain tb cells where tb: "tables w k = Some tb"
    and cells: "column_cells tb dt = Inr cells"
    and m: "maximum (stamps cells) = Some t"
    using assms by (auto simp add: stored_sync_time_def split: option.splits sum.splits)
  let ?tb = "tb\<lparr>df_rows := df_rows tb @ laid_out (df_columns tb) df\<rparr>"
  have "\<exists>more. column_cells ?tb dt = Inr (cells @ more)"
    using cells by (auto simp add: column_cells_def split: if_splits)
  then obtain more where c: "column_cells ?tb dt = Inr (cells @ more)"
    by blast
  have s: "stored_sync_time (to_sql c df name w) k dt = maximum (stamps (cells @ more))"
    using True tb c by (simp add: stored_sync_time_def to_sql_def emit_def Let_def)
  show ?thesis
    unfolding s stamps_append using maximum_append [OF m] by simp
qed

lemma no_earlier_refl: "no_earlier w w"
  by (simp add: no_earlier_def split: option.splits)

lemma no_earlier_trans: "no_earlier w w1 \<Longrightarrow> no_earlier w1 w2 \<Longrightarrow> no_earlier w w2"
  unfolding no_earlier_def
proof (intro allI)
  fix k dt
  assume a: "\<forall>k dt. case stored_sync_time w k dt of None \<Rightarrow> True
      | Some t \<Rightarrow> (case stored_sync_time w1 k dt of None \<Rightarrow> False | Some t1 \<Rightarrow> t \<le> t1)"
    and b: "\<forall>k dt. case stored_sync_time w1 k dt of None \<Rightarrow> True
      | Some t \<Rightarrow> (case stored_sync_time w2 k dt of None \<Rightarrow> False | Some t1 \<Rightarrow> t \<le> t1)"
  show "case stored_sync_time w k dt of None \<Rightarrow> True
      | Some t \<Rightarrow> (case stored_sync_time w2 k dt of None \<Rightarrow> False | Some t1 \<Rightarrow> t \<le> t1)"
    using a [rule_format, of k dt] b [rule_format, of k dt]
    by (auto split: option.splits)
qed

lemma no_earlier_emit: "no_earlier w (emit e w)"
  by (simp add: no_earlier_def stored_sync_time_emit split: option.splits)

lemma no_earlier_to_sql: "no_earlier w (to_sql c df name w)"
  unfolding no_earlier_def
proof (intro allI)
  fix k dt
  show "case stored_sync_time w k dt of None \<Rightarrow> True
      | Some t \<Rightarrow> (case stored_sync_time (to_sql c df name w) k dt of
                     None \<Rightarrow> False | Some t1 \<Rightarrow> t \<le> t1)"
    using stored_sync_time_to_sql [of w k dt _ c df name]
    by (auto split: option.splits)
qed

lemma no_earlier_Some:
  assumes "no_earlier w w1" and "stored_sync_time w k dt = Some t"
  shows "\<exists>t1. stored_sync_time w1 k dt = Some t1 \<and> t \<le> t1"
  using assms(1) [unfolded no_earlier_def, rule_format, of k dt] assms(2)
  by (auto split: option.splits)

lemma same_pipe_refl: "same_pipe E self self"
  by (simp add: same_pipe_def)

lemma same_pipe_trans:
  "same_pipe E self self1 \<Longrightarrow> same_pipe E self1 self2 \<Longrightarrow> same_pipe E self self2"
  by (simp add: same_pipe_def)

lemma same_pipe_snd_instance_connector: "same_pipe E self (snd (instance_connector E self))"
  by (cases "cached_instance_connector self"; cases "parse_instance_keys E (instance_keys self)")
     (simp_all add: same_pipe_def instance_connector_def str_of_def)

lemma same_pipe_instance_connector:
  "instance_connector E self = (r, self1) \<Longrightarrow> same_pipe E self self1"
  using same_pipe_snd_instance_connector [of E self] by simp

lemma connector_keeps_sync_time:
  "cached_sync_time (snd (connector E self)) = cached_sync_time self"
  by (simp add: connector_def split: option.splits)

lemma same_pipe_connector:
  assumes "connector E self = (r, self1)"
  shows "same_pipe E self self1"
proof -
  have "self1 = snd (connector E self)"
    using assms by simp
  then show ?thesis
    using connector_keeps(1,2) [of E self] connector_keeps_sync_time [of E self]
      instance_connector_after_connector [of E self]
    by (simp add: same_pipe_def)
qed

lemma same_pipe_cached_id: "same_pipe E self (self\<lparr>cached_id := x\<rparr>)"
  by (simp add: same_pipe_def instance_connector_def str_of_def split: option.splits)

lemma pipe_id_inv:
  assumes "pipe_id E self w = Inr (i, self1, w1)"
  shows "same_pipe E self self1 \<and> no_earlier w w1"
proof (cases "case cached_id self of None \<Rightarrow> False | Some v \<Rightarrow> truthy v")
  case True
  then show ?thesis
    using assms by (auto simp add: pipe_id_def same_pipe_refl no_earlier_refl)
next
  case False
  obtain r self0 where r: "instance_connector E self = (r, self0)"
    by (cases "instance_connector E self")
  obtain ic v where "self1 = self0\<lparr>cached_id := Some v\<rparr>"
    and "w1 = emit (GetPipeId (keys_of ic) (str_of self0)) w"
    using assms False r by (cases r) (auto simp add: pipe_id_def Let_def)
  then show ?thesis
    using same_pipe_trans [OF same_pipe_instance_connector [OF r] same_pipe_cached_id]
      no_earlier_emit by simp
qed

lemma exists_inv:
  assumes "exists E self w = Inr (ex, self1, w1)"
  shows "same_pipe E self self1 \<and> no_earlier w w1"
proof -
  obtain r self0 where r: "instance_connector E self = (r, self0)"
    by (cases "instance_connector E self")
  obtain e where "self1 = self0" "w1 = emit e w"
    using assms r by (auto simp add: exists_def Let_def split: sum.splits)
  then show ?thesis
    using same_pipe_instance_connector [OF r] no_earlier_emit by simp
qed

lemma get_backtrack_data_inv:
  assumes "get_backtrack_data E self minutes (Some b) w = Inr (bt, self1, w1)"
  shows "same_pipe E self self1 \<and> no_earlier w w1"
proof -
  obtain r self0 where r: "instance_connector E self = (r, self0)"
    by (cases "instance_connector E self")
  obtain e where "self1 = self0" "w1 = emit e w"
    using assms r
    by (cases r) (auto simp add: get_backtrack_data_def and_then_def Let_def)
  then show ?thesis
    using same_pipe_instance_connector [OF r] no_earlier_emit by simp
qed

lemma sync_frame_inv:
  assumes "sync_frame E sc self df w = Inr (res, self1, w1)"
  shows "same_pipe E self self1 \<and> no_earlier w w1"
proof -
  obtain ex self2 w2 where x: "exists E self w = Inr (ex, self2, w2)"
    using assms by (cases "exists E self w") (auto simp add: sync_frame_def and_then_def)
  let ?w3 = "if \<not> ex
             then emit (CreateIndices (keys_of sc) (str_of self2))
                    (to_sql sc (head0 df) (str_of self2) w2)
             else w2"
  have n3: "no_earlier w2 ?w3"
    using no_earlier_trans [OF no_earlier_to_sql no_earlier_emit] no_earlier_refl by simp
  obtain b where b: "begin_of self2 df = Inr b"
    using assms x
    by (cases "begin_of self2 df") (auto simp add: sync_frame_def and_then_def Let_def)
  obtain bt self4 w4 where g: "get_backtrack_data E self2 0 (Some b) ?w3 = Inr (bt, self4, w4)"
    using assms x b
    by (cases "get_backtrack_data E self2 0 (Some b) ?w3")
       (auto simp add: sync_frame_def and_then_def Let_def)
  obtain new where "self1 = self4" "w1 = to_sql sc new (str_of self4) w4"
    using assms x b g
    by (cases "new_data_df df bt") (auto simp add: sync_frame_def and_then_def Let_def)
  then show ?thesis
    using exists_inv [OF x] get_backtrack_data_inv [OF g] n3
      no_earlier_to_sql [of w4 sc new "str_of self4"]
    by (meson same_pipe_trans no_earlier_trans)
qed

lemma sync_local_inv:
  assumes "sync_local E ic self df w = Inr (res, self1, w1)"
  shows "same_pipe E self self1 \<and> no_earlier w w1"
proof -
  obtain dt where dt: "get_columns self ''datetime'' = Inr dt"
    using assms by (cases "get_columns self ''datetime''") (auto simp add: sync_local_def)
  obtain i self2 w2 where p: "pipe_id E self w = Inr (i, self2, w2)"
    using assms dt by (cases "pipe_id E self w") (auto simp add: sync_local_def and_then_def)
  let ?w3 = "if \<not> truthy i then emit (Register (str_of self2)) w2 else w2"
  have n3: "no_earlier w2 ?w3"
    using no_earlier_emit no_earlier_refl by simp
  show ?thesis
  proof (cases df)
    case None
    obtain r self4 where c: "connector E self2 = (r, self4)"
      by (cases "connector E self2")
    have "self1 = self4 \<and> no_earlier ?w3 w1"
      using assms dt p None c
      by (cases r)
         (auto simp add: sync_local_def and_then_def Let_def no_earlier_refl no_earlier_emit
          split: if_splits)
    then show ?thesis
      using pipe_id_inv [OF p] same_pipe_connector [OF c] n3
      by (meson same_pipe_trans no_earlier_trans)
  next
    case (Some f)
    have "sync_frame E ic self2 f ?w3 = Inr (res, self1, w1)"
      using assms dt p Some by (simp add: sync_local_def and_then_def Let_def)
    then show ?thesis
      using pipe_id_inv [OF p] sync_frame_inv n3
      by (meson same_pipe_trans no_earlier_trans)
  qed
qed

lemma sync_instance_inv:
  assumes "sync_instance E self df w = Inr (res, self1, w1)"
  shows "same_pipe E self self1 \<and> no_earlier w w1"
proof -
  obtain r self0 where r: "instance_connector E self = (r, self0)"
    by (cases "instance_connector E self")
  obtain ic where ic: "r = Some ic"
    using assms r by (cases r) (auto simp add: sync_instance_def)
  show ?thesis
  proof (cases "conn_type ic = ''api''")
    case True
    then have "self1 = self0 \<and> no_earlier w w1"
      using assms r ic by (auto simp add: sync_instance_def no_earlier_emit)
    then show ?thesis
      using same_pipe_instance_connector [OF r] by simp
  next
    case False
    then have "sync_local E ic self0 df w = Inr (res, self1, w1)"
      using assms r ic by (simp add: sync_instance_def)
    then show ?thesis
      using same_pipe_instance_connector [OF r] sync_local_inv
      by (meson same_pipe_trans)
  qed
qed

lemma sync_inv:
  assumes "sync E self df w = Inr (res, self1, w1)"
  shows "same_pipe E self self1 \<and> no_earlier w w1"
proof (cases df)
  case (Some f)
  then show ?thesis
    using assms sync_instance_inv by (simp add: sync_def)
next
  case None
  obtain r self0 where c: "connector E self = (r, self0)"
    by (cases "connector E self")
  show ?thesis
  proof (cases r)
    case None
    then show ?thesis
      using assms \<open>df = None\<close> c same_pipe_connector [OF c]
      by (auto simp add: sync_def no_earlier_refl)
  next
    case (Some a)
    then have "sync_instance E self0 (fetch_result E (str_of self0))
                 (emit (Fetch (str_of self0)) w) = Inr (res, self1, w1)"
      using assms \<open>df = None\<close> c by (simp add: sync_def)
    then show ?thesis
      using sync_instance_inv same_pipe_connector [OF c] no_earlier_emit
      by (meson same_pipe_trans no_earlier_trans)
  qed
qed

lemma get_sync_time_Some:
  assumes "get_sync_time E self w = Inr (Some t, self1, w1)"
  shows "\<exists>cs dt ic. columns self = Some cs \<and> map_of cs ''datetime'' = Some dt
           \<and> fst (instance_connector E self) = Some ic
           \<and> stored_sync_time w (keys_of ic, str_of self) dt = Some t
           \<and> same_pipe E self self1 \<and> no_earlier w w1"
proof -
  obtain cs where cs: "columns self = Some cs"
    using assms by (cases "columns self") (auto simp add: get_sync_time_def)
  obtain dt where dt: "map_of cs ''datetime'' = Some dt"
    using assms cs by (cases "map_of cs ''datetime''") (auto simp add: get_sync_time_def)
  obtain r self0 where r: "instance_connector E self = (r, self0)"
    by (cases "instance_connector E self")
  obtain ic where ic: "r = Some ic"
    using assms cs dt r by (cases r) (auto simp add: get_sync_time_def)
  have k: "str_of self0 = str_of self"
    using instance_connector_keeps(1) [of E self] r by simp
  have "stored_sync_time w (keys_of ic, str_of self) dt = Some t" "self1 = self0"
    "w1 = emit (GetSyncTime (keys_of ic) (str_of self)) w"
    using assms cs dt r ic k by (auto simp add: get_sync_time_def)
  then show ?thesis
    using cs dt r ic same_pipe_instance_connector [OF r] no_earlier_emit by auto
qed

lemma get_sync_time_eval:
  assumes "columns self = Some cs" and "map_of cs ''datetime'' = Some dt"
    and "fst (instance_connector E self) = Some ic"
  shows "\<exists>self1 w1. get_sync_time E self w
           = Inr (stored_sync_time w (keys_of ic, str_of self) dt, self1, w1)"
proof -
  obtain self0 where r: "instance_connector E self = (Some ic, self0)"
    using assms(3) by (cases "instance_connector E self") simp
  have k: "str_of self0 = str_of self"
    using instance_connector_keeps(1) [of E self] r by simp
  show ?thesis
    using assms(1,2) r k by (simp add: get_sync_time_def)
qed

lemma sync_time_Some:
  assumes "sync_time E self w = Inr (Some t, self1, w1)"
  shows "cached_sync_time self1 = Some (Some t)"
proof (cases "cached_sync_time self")
  case None
  obtain v self0 w0 where g: "get_sync_time E self w = Inr (v, self0, w0)"
    using assms None
    by (cases "get_sync_time E self w") (auto simp add: sync_time_def and_then_def)
  show ?thesis
    using assms None g by (cases v) (auto simp add: sync_time_def and_then_def)
next
  case (Some v)
  then show ?thesis
    using assms by (cases v) (auto simp add: sync_time_def and_then_def)
qed

text \<open>
  C6. Take a pipe whose sync time is not null, and a call of \<open>sync\<close> that returns
  \<open>(True, "Success")\<close>. Then the sync time after the call is not null and is at least
  the sync time before it. This holds for \<open>get_sync_time\<close>, the query for the most
  recent timestamp in storage, since \<open>sync\<close> touches the storage only by \<open>to_sql\<close>,
  which adds rows; and for the property \<open>sync_time\<close>, which returns the value it
  cached.
\<close>

theorem sync_time_monotonic:
  "(get_sync_time E self w = Inr (Some t0, self0, w0)
      \<and> sync E self0 df w0 = Inr (RTuple True ''Success'', self1, w1)
    \<longrightarrow> (\<exists>t1 self2 w2. get_sync_time E self1 w1 = Inr (Some t1, self2, w2) \<and> t0 \<le> t1))
   \<and> (sync_time E self w = Inr (Some t0, self0, w0)
      \<and> sync E self0 df w0 = Inr (RTuple True ''Success'', self1, w1)
    \<longrightarrow> (\<exists>t1 self2 w2. sync_time E self1 w1 = Inr (Some t1, self2, w2) \<and> t0 \<le> t1))"
proof (intro conjI impI)
  assume h: "get_sync_time E self w = Inr (Some t0, self0, w0)
      \<and> sync E self0 df w0 = Inr (RTuple True ''Success'', self1, w1)"
  obtain cs dt ic where cs: "columns self = Some cs"
    and dt: "map_of cs ''datetime'' = Some dt"
    and ic: "fst (instance_connector E self) = Some ic"
    and st: "stored_sync_time w (keys_of ic, str_of self) dt = Some t0"
    and s0: "same_pipe E self self0" and n0: "no_earlier w w0"
    using get_sync_time_Some [of E self w t0 self0 w0] h by blast
  have s1: "same_pipe E self0 self1" and n1: "no_earlier w0 w1"
    using sync_inv [of E self0 df w0 "RTuple True ''Success''" self1 w1] h by simp_all
  have s: "same_pipe E self self1"
    using same_pipe_trans [OF s0 s1] .
  obtain t1 where t1: "stored_sync_time w1 (keys_of ic, str_of self) dt = Some t1" "t0 \<le> t1"
    using no_earlier_Some [OF no_earlier_trans [OF n0 n1] st] by blast
  have c1: "columns self1 = Some cs" "fst (instance_connector E self1) = Some ic"
    "str_of self1 = str_of self"
    using s cs ic by (simp_all add: same_pipe_def columns_def)
  show "\<exists>t1 self2 w2. get_sync_time E self1 w1 = Inr (Some t1, self2, w2) \<and> t0 \<le> t1"
    using get_sync_time_eval [OF c1(1) dt c1(2), of w1] t1 c1(3) by auto
next
  assume h: "sync_time E self w = Inr (Some t0, self0, w0)
      \<and> sync E self0 df w0 = Inr (RTuple True ''Success'', self1, w1)"
  have "cached_sync_time self0 = Some (Some t0)"
    using sync_time_Some [of E self w t0 self0 w0] h by simp
  moreover have "same_pipe E self0 self1"
    using sync_inv [of E self0 df w0 "RTuple True ''Success''" self1 w1] h by simp
  ultimately have "cached_sync_time self1 = Some (Some t0)"
    by (simp add: same_pipe_def)
  then have "sync_time E self1 w1 = Inr (Some t0, self1, w1)"
    by (simp add: sync_time_def and_then_def)
  then show "\<exists>t1 self2 w2. sync_time E self1 w1 = Inr (Some t1, self2, w2) \<and> t0 \<le> t1"
    by simp
qed

theorem sync_time_monotonic_witness:
  "(\<exists>self0 w0 self1 w1 t1 self2 w2.
     get_sync_time (example_env None stored_rows) (example_pipe ''sql:main'' ''sql:main'')
       stored_world = Inr (Some 36060, self0, w0)
     \<and> sync (example_env None stored_rows) self0 (Some fetched_rows) w0
         = Inr (RTuple True ''Success'', self1, w1)
     \<and> get_sync_time (example_env None stored_rows) self1 w1 = Inr (Some t1, self2, w2)
     \<and> 36060 \<le> t1)
   \<and> (\<exists>self0 w0 self1 w1 t1 self2 w2.
     sync_time (example_env None stored_rows) (example_pipe ''sql:main'' ''sql:main'')
       stored_world = Inr (Some 36060, self0, w0)
     \<and> sync (example_env None stored_rows) self0 (Some fetched_rows) w0
         = Inr (RTuple True ''Success'', self1, w1)
     \<and> sync_time (example_env None stored_rows) self1 w1 = Inr (Some t1, self2, w2)
     \<and> 36060 \<le> t1)"
proof -
  let ?E = "example_env None stored_rows"
  let ?P = "example_pipe ''sql:main'' ''sql:main''"
  let ?c = "\<lparr>conn_type = ''sql'', conn_label = ''main'', conn_flavor = ''timescaledb''\<rparr>"
  let ?Q = "?P\<lparr>cached_instance_connector := Some ?c\<rparr>"
  let ?R = "?Q\<lparr>cached_sync_time := Some (Some 36060)\<rparr>"
  let ?u = "emit (GetSyncTime ''sql:main'' ''sql_main_cpu'') stored_world"
  have g: "get_sync_time ?E ?P stored_world = Inr (Some 36060, ?Q, ?u)"
    by (simp add: get_sync_time_def columns_def instance_connector_def stored_sync_time_def
        column_cells_def keys_of_def str_of_def stored_world_def example_defs)
  have p: "sync_time ?E ?P stored_world = Inr (Some 36060, ?R, ?u)"
    using g by (simp add: sync_time_def and_then_def example_pipe_def)
  have n: "new_data_df fetched_rows stored_rows = Inr fetched_rows"
    by (simp add: new_data_df_def isin_def fetched_rows_def stored_rows_def where_not_def
        dropna_all_def lookup_cell_def cell_eq_def)
  have 1: "fst (instance_connector ?E ?Q) = Some ?c" "fst (instance_connector ?E ?R) = Some ?c"
    by (simp_all add: instance_connector_def)
  have 2: "conn_type ?c \<noteq> ''api''" by simp
  have 3: "conn_flavor (get_connector_sql_main ?E)
           \<in> {''timescaledb'', ''postgresql'', ''mssql'', ''mysql'', ''mariadb''}"
    by (simp add: example_env_def)
  have 4: "columns ?Q = Some [(''datetime'', ''ts'')]" "columns ?R = Some [(''datetime'', ''ts'')]"
    by (simp_all add: columns_def example_pipe_def)
  have 5: "map_of [(''datetime'', ''ts'')] ''datetime'' = Some ''ts''" by simp
  have 6: "column_cells fetched_rows ''ts'' = Inr [Stamp 36060, Stamp 36120]"
    by (simp add: column_cells_def fetched_rows_def)
  have 7: "set [Stamp 36060, Stamp 36120] \<subseteq> insert NaN (range Stamp)" by simp
  have 8: "stamps [Stamp 36060, Stamp 36120] \<noteq> []" by simp
  have b: "\<And>k name m b. backtrack_result ?E k name m b = stored_rows"
    by (simp add: example_env_def)
  obtain self1 w1 where
    s: "sync ?E ?Q (Some fetched_rows) ?u = Inr (RTuple True ''Success'', self1, w1)"
    using sync_rows_outcome [OF 1(1) 2 3 4(1) 5 6 7 8, of ?u]
    unfolding b n by auto
  obtain self1' w1' where
    s': "sync ?E ?R (Some fetched_rows) ?u = Inr (RTuple True ''Success'', self1', w1')"
    using sync_rows_outcome [OF 1(2) 2 3 4(2) 5 6 7 8, of ?u]
    unfolding b n by auto
  have a: "\<exists>t1 self2 w2.
      get_sync_time ?E self1 w1 = Inr (Some t1, self2, w2) \<and> 36060 \<le> t1"
    using sync_time_monotonic [of ?E ?P stored_world 36060 ?Q ?u "Some fetched_rows" self1 w1]
      g s by blast
  have c: "\<exists>t1 self2 w2.
      sync_time ?E self1' w1' = Inr (Some t1, self2, w2) \<and> 36060 \<le> t1"
    using sync_time_monotonic [of ?E ?P stored_world 36060 ?R ?u "Some fetched_rows" self1' w1']
      p s' by blast
  show ?thesis
    using g s a p s' c by blast
qed

end
